theory Spec2Isabelle
  imports Main "HOL-Library.Product_Lexorder"
begin

section \<open>The store: three denormalised tables behind a query interface\<close>

text \<open>
  The repositories of \<^verbatim>\<open>app/models/cassandra_models.py\<close> talk to the store only
  through \<^verbatim>\<open>CassandraClient.execute\<close>. The tables are those created by
  \<^verbatim>\<open>scripts/setup_db.py\<close>. A timestamp is a number of microseconds since the epoch
  (the resolution of Python's \<^verbatim>\<open>datetime\<close>), a uuid is its 128-bit value.

  The store is the one collaborator outside the repository. It is taken as its schema
  describes it: a table holds one row per primary key, an \<^verbatim>\<open>INSERT\<close> replaces the row
  with its key, a query on a partition returns the rows in clustering order, and a
  \<^verbatim>\<open>LIMIT\<close> that is not positive is rejected. The tables keep a row as it is bound;
  where the store compares the time of a row with a bound time it compares their whole
  milliseconds, the resolution of its \<^verbatim>\<open>timestamp\<close> type. The 32-bit range of the
  \<^verbatim>\<open>int\<close> columns is left out. One operation runs at a time.
\<close>

type_synonym timestamp = int
type_synonym uuid = nat

text \<open>\<^verbatim>\<open>messages_by_conversation\<close>: primary key
  \<^verbatim>\<open>((conversation_id), message_timestamp, message_id)\<close>.\<close>

record message_row =
  m_conversation_id :: int
  m_message_timestamp :: timestamp
  m_message_id :: uuid
  m_sender_id :: int
  m_receiver_id :: int
  m_content :: string

text \<open>\<^verbatim>\<open>conversations_by_user\<close>: primary key
  \<^verbatim>\<open>((user_id), last_message_timestamp, conversation_id)\<close>. The content column is
  the only one the code ever binds to \<^verbatim>\<open>None\<close>.\<close>

record summary_row =
  s_user_id :: int
  s_last_message_timestamp :: timestamp
  s_conversation_id :: int
  s_other_user_id :: int
  s_last_message_content :: "string option"

text \<open>\<^verbatim>\<open>conversation_participants\<close>: primary key \<^verbatim>\<open>(conversation_id)\<close>.\<close>

record participants_row =
  p_conversation_id :: int
  p_user1_id :: int
  p_user2_id :: int
  p_created_at :: timestamp

record tables =
  messages_by_conversation :: "message_row list"
  conversations_by_user :: "summary_row list"
  conversation_participants :: "participants_row list"

datatype error = QueryFailure string | InvalidRequest string

text \<open>
  The state the code runs against: the tables, and the outcome the session has in store
  for the coming queries (\<open>Some e\<close>: the query raises \<open>e\<close>; \<open>None\<close>, or nothing
  left: the query runs).
\<close>

record store =
  db :: tables
  faults :: "error option list"

definition empty_tables :: tables where
  "empty_tables =
     \<lparr>messages_by_conversation = [], conversations_by_user = [],
      conversation_participants = []\<rparr>"

definition empty_store :: store where
  "empty_store = \<lparr>db = empty_tables, faults = []\<rparr>"

subsection \<open>Primary keys and clustering order\<close>

definition message_key :: "message_row \<Rightarrow> int \<times> timestamp \<times> uuid" where
  "message_key r = (m_conversation_id r, m_message_timestamp r, m_message_id r)"

definition summary_key :: "summary_row \<Rightarrow> int \<times> timestamp \<times> int" where
  "summary_key r = (s_user_id r, s_last_message_timestamp r, s_conversation_id r)"

text \<open>\<^verbatim>\<open>CLUSTERING ORDER BY (message_timestamp DESC, message_id ASC)\<close>: the rows of a
  partition come back sorted by this key, smallest first, in the lexicographic order
  of pairs.\<close>

definition message_clustering :: "message_row \<Rightarrow> int \<times> uuid" where
  "message_clustering r = (- m_message_timestamp r, m_message_id r)"

text \<open>\<^verbatim>\<open>CLUSTERING ORDER BY (last_message_timestamp DESC, conversation_id ASC)\<close>.\<close>

definition summary_clustering :: "summary_row \<Rightarrow> int \<times> int" where
  "summary_clustering r = (- s_last_message_timestamp r, s_conversation_id r)"

definition messages_partition :: "int \<Rightarrow> tables \<Rightarrow> message_row list" where
  "messages_partition conversation_id t =
     sort_key message_clustering
       (filter (\<lambda>r. m_conversation_id r = conversation_id) (messages_by_conversation t))"

definition summaries_partition :: "int \<Rightarrow> tables \<Rightarrow> summary_row list" where
  "summaries_partition user_id t =
     sort_key summary_clustering
       (filter (\<lambda>r. s_user_id r = user_id) (conversations_by_user t))"

text \<open>A partition of \<^verbatim>\<open>conversation_participants\<close> has no clustering columns.\<close>

definition participants_partition :: "int \<Rightarrow> tables \<Rightarrow> participants_row list" where
  "participants_partition conversation_id t =
     filter (\<lambda>r. p_conversation_id r = conversation_id) (conversation_participants t)"

subsection \<open>The CQL statements the repositories issue\<close>

text \<open>A statement with its parameters bound maps the tables to an error or to the rows
  it returns and the tables it leaves.\<close>

type_synonym 'a statement = "tables \<Rightarrow> error + ('a \<times> tables)"

text \<open>\<^verbatim>\<open>INSERT\<close> is an upsert: the row replaces whatever row had its primary key.\<close>

definition upsert :: "('r \<Rightarrow> 'k) \<Rightarrow> 'r \<Rightarrow> 'r list \<Rightarrow> 'r list" where
  "upsert key r rows = r # filter (\<lambda>q. key q \<noteq> key r) rows"

definition put_message :: "message_row \<Rightarrow> tables \<Rightarrow> tables" where
  "put_message r t =
     t\<lparr>messages_by_conversation := upsert message_key r (messages_by_conversation t)\<rparr>"

definition put_summary :: "summary_row \<Rightarrow> tables \<Rightarrow> tables" where
  "put_summary r t =
     t\<lparr>conversations_by_user := upsert summary_key r (conversations_by_user t)\<rparr>"

definition put_participants :: "participants_row \<Rightarrow> tables \<Rightarrow> tables" where
  "put_participants r t =
     t\<lparr>conversation_participants :=
         upsert p_conversation_id r (conversation_participants t)\<rparr>"

text \<open>\<^verbatim>\<open>INSERT INTO messages_by_conversation (...) VALUES (%s, %s, %s, %s, %s, %s)\<close>\<close>

definition insert_message :: "message_row \<Rightarrow> unit statement" where
  "insert_message r t = Inr ((), put_message r t)"

text \<open>\<^verbatim>\<open>INSERT INTO conversations_by_user (...) VALUES (%s, %s, %s, %s, %s)\<close>\<close>

definition insert_conversation_by_user :: "summary_row \<Rightarrow> unit statement" where
  "insert_conversation_by_user r t = Inr ((), put_summary r t)"

text \<open>\<^verbatim>\<open>INSERT INTO conversation_participants (...) VALUES (%s, %s, %s, %s)\<close>\<close>

definition insert_conversation_participants :: "participants_row \<Rightarrow> unit statement" where
  "insert_conversation_participants r t = Inr ((), put_participants r t)"

text \<open>\<^verbatim>\<open>LIMIT n\<close>: the store rejects a limit that is not strictly positive.\<close>

definition limit_rows :: "int \<Rightarrow> 'r list \<Rightarrow> error + 'r list" where
  "limit_rows n rows =
     (if n \<le> 0 then Inl (InvalidRequest ''LIMIT must be strictly positive'')
      else Inr (take (nat n) rows))"

definition limited :: "int \<Rightarrow> 'r list \<Rightarrow> 'r list statement" where
  "limited n rows t = (case limit_rows n rows of Inl e \<Rightarrow> Inl e | Inr rs \<Rightarrow> Inr (rs, t))"


text \<open>A time as it reaches the store: whole milliseconds since the epoch. The driver
  encodes a bound \<^verbatim>\<open>datetime\<close> as \<^verbatim>\<open>int(seconds * 1e3 + microsecond / 1e3)\<close>, which
  truncates towards zero.\<close>

definition milliseconds :: "timestamp \<Rightarrow> int" where
  "milliseconds t = (if 0 \<le> t then t div 1000 else - ((- t) div 1000))"

text \<open>\<^verbatim>\<open>message_timestamp < %s\<close>, as the store decides it: on the milliseconds of the
  row's time and of the bound time.\<close>

definition stored_before :: "timestamp \<Rightarrow> message_row \<Rightarrow> bool" where
  "stored_before before_timestamp r \<longleftrightarrow>
     milliseconds (m_message_timestamp r) < milliseconds before_timestamp"

text \<open>\<^verbatim>\<open>... WHERE conversation_id = %s AND message_timestamp < %s LIMIT %s\<close>\<close>

definition select_messages_before ::
  "int \<Rightarrow> timestamp \<Rightarrow> int \<Rightarrow> message_row list statement" where
  "select_messages_before conversation_id before_timestamp fetch_limit t =
     limited fetch_limit
       (filter (stored_before before_timestamp) (messages_partition conversation_id t)) t"

text \<open>\<^verbatim>\<open>SELECT COUNT(*) as count ... WHERE conversation_id = %s AND message_timestamp < %s\<close>:
  always one row, holding the count.\<close>

definition count_messages_before :: "int \<Rightarrow> timestamp \<Rightarrow> int list statement" where
  "count_messages_before conversation_id before_timestamp t =
     Inr ([int (length (filter (stored_before before_timestamp)
                         (messages_partition conversation_id t)))], t)"

text \<open>\<^verbatim>\<open>SELECT ... FROM conversations_by_user WHERE user_id = %s LIMIT %s\<close>\<close>

definition select_conversations_by_user :: "int \<Rightarrow> int \<Rightarrow> summary_row list statement" where
  "select_conversations_by_user user_id fetch_limit t =
     limited fetch_limit (summaries_partition user_id t) t"

text \<open>\<^verbatim>\<open>SELECT conversation_id FROM conversations_by_user WHERE user_id = %s\<close>\<close>

definition select_conversation_ids :: "int \<Rightarrow> summary_row list statement" where
  "select_conversation_ids user_id t = Inr (summaries_partition user_id t, t)"

text \<open>\<^verbatim>\<open>SELECT ... FROM conversation_participants WHERE conversation_id = %s\<close>\<close>

definition select_participants :: "int \<Rightarrow> participants_row list statement" where
  "select_participants conversation_id t = Inr (participants_partition conversation_id t, t)"

text \<open>\<^verbatim>\<open>SELECT message_timestamp, content FROM messages_by_conversation
  WHERE conversation_id = %s LIMIT 1\<close>\<close>

definition select_last_message :: "int \<Rightarrow> message_row list statement" where
  "select_last_message conversation_id t =
     limited 1 (messages_partition conversation_id t) t"

subsection \<open>\<^verbatim>\<open>CassandraClient.execute\<close>\<close>

text \<open>
  \<^verbatim>\<open>
  try:
      statement = SimpleStatement(query)
      result = self.session.execute(statement, params or {})
      return list(result)
  except Exception as e:
      logger.error(...)
      raise
  \<close>
  Whatever the session raises is raised again; nothing is retried or undone. The
  session exists (the client connects when it is built), and the log line changes
  nothing a caller sees.
\<close>

definition run :: "'a statement \<Rightarrow> store \<Rightarrow> (error + 'a) \<times> store" where
  "run statement s =
     (case statement (db s) of
        Inl e \<Rightarrow> (Inl e, s)
      | Inr (rows, t) \<Rightarrow> (Inr rows, s\<lparr>db := t\<rparr>))"

definition execute :: "'a statement \<Rightarrow> store \<Rightarrow> (error + 'a) \<times> store" where
  "execute statement s =
     (case faults s of
        [] \<Rightarrow> run statement s
      | None # fs \<Rightarrow> run statement (s\<lparr>faults := fs\<rparr>)
      | Some e # fs \<Rightarrow> (Inl e, s\<lparr>faults := fs\<rparr>))"

section \<open>Values the repositories return\<close>

text \<open>\<^verbatim>\<open>str(message_id)\<close>: the canonical text of a uuid, one text per uuid.\<close>

datatype uuid_text = Str (uuid_of: uuid)

record message =
  msg_id :: uuid_text
  msg_conversation_id :: int
  msg_sender_id :: int
  msg_receiver_id :: int
  msg_content :: string
  msg_created_at :: timestamp

record conversation =
  c_id :: int
  c_user1_id :: int
  c_user2_id :: int
  c_last_message_at :: timestamp
  c_last_message_content :: "string option"

record 'a paged =
  pg_total :: int
  pg_page :: int
  pg_limit :: int
  pg_data :: "'a list"

text \<open>Python's \<^verbatim>\<open>xs[i:j]\<close> for integers of either sign.\<close>

definition slice_index :: "nat \<Rightarrow> int \<Rightarrow> nat" where
  "slice_index n i = (if i < 0 then nat (max 0 (int n + i)) else min n (nat i))"

definition py_slice :: "'a list \<Rightarrow> int \<Rightarrow> int \<Rightarrow> 'a list" where
  "py_slice xs i j =
     (let a = slice_index (length xs) i; b = slice_index (length xs) j
      in take (b - a) (drop a xs))"

section \<open>MessageModel\<close>

text \<open>The dictionary built from a fetched row in both read paths.\<close>

definition message_of_row :: "message_row \<Rightarrow> message" where
  "message_of_row row =
     \<lparr>msg_id = Str (m_message_id row),
      msg_conversation_id = m_conversation_id row,
      msg_sender_id = m_sender_id row,
      msg_receiver_id = m_receiver_id row,
      msg_content = m_content row,
      msg_created_at = m_message_timestamp row\<rparr>"

text \<open>\<^verbatim>\<open>create_message\<close>. The values of \<^verbatim>\<open>uuid.uuid4()\<close> and
  \<^verbatim>\<open>datetime.now()\<close> are the last two arguments.\<close>

definition create_message ::
  "int \<Rightarrow> int \<Rightarrow> string \<Rightarrow> int \<Rightarrow> uuid \<Rightarrow> timestamp \<Rightarrow> store \<Rightarrow> (error + message) \<times> store" where
  "create_message sender_id receiver_id content conversation_id message_id message_timestamp s =
     (case execute (insert_message
             \<lparr>m_conversation_id = conversation_id, m_message_timestamp = message_timestamp,
              m_message_id = message_id, m_sender_id = sender_id,
              m_receiver_id = receiver_id, m_content = content\<rparr>) s of
        (Inl e, s1) \<Rightarrow> (Inl e, s1)
      | (Inr _, s1) \<Rightarrow>
     (case execute (insert_conversation_by_user
             \<lparr>s_user_id = sender_id, s_last_message_timestamp = message_timestamp,
              s_conversation_id = conversation_id, s_other_user_id = receiver_id,
              s_last_message_content = Some content\<rparr>) s1 of
        (Inl e, s2) \<Rightarrow> (Inl e, s2)
      | (Inr _, s2) \<Rightarrow>
     (case execute (insert_conversation_by_user
             \<lparr>s_user_id = receiver_id, s_last_message_timestamp = message_timestamp,
              s_conversation_id = conversation_id, s_other_user_id = sender_id,
              s_last_message_content = Some content\<rparr>) s2 of
        (Inl e, s3) \<Rightarrow> (Inl e, s3)
      | (Inr _, s3) \<Rightarrow>
          (Inr \<lparr>msg_id = Str message_id, msg_conversation_id = conversation_id,
                msg_sender_id = sender_id, msg_receiver_id = receiver_id,
                msg_content = content, msg_created_at = message_timestamp\<rparr>, s3))))"


definition get_messages_before_timestamp ::
  "int \<Rightarrow> timestamp \<Rightarrow> int \<Rightarrow> int \<Rightarrow> store \<Rightarrow> (error + message paged) \<times> store" where
  "get_messages_before_timestamp conversation_id before_timestamp page limit s =
     (let fetch_limit = page * limit in
      case execute (select_messages_before conversation_id before_timestamp fetch_limit) s of
        (Inl e, s1) \<Rightarrow> (Inl e, s1)
      | (Inr rows, s1) \<Rightarrow>
          (let messages = map message_of_row rows;
               start_idx = (page - 1) * limit;
               end_idx = start_idx + limit;
               paged_messages = py_slice messages start_idx end_idx
           in case execute (count_messages_before conversation_id before_timestamp) s1 of
                (Inl e, s2) \<Rightarrow> (Inl e, s2)
              | (Inr count_result, s2) \<Rightarrow>
                  (let total = (case count_result of [] \<Rightarrow> 0 | count # _ \<Rightarrow> count)
                   in (Inr \<lparr>pg_total = total, pg_page = page, pg_limit = limit,
                             pg_data = paged_messages\<rparr>, s2))))"

section \<open>ConversationModel\<close>

text \<open>The loop of \<^verbatim>\<open>get_user_conversations\<close>: one participants lookup per fetched
  summary row; a row without participants adds nothing.\<close>

fun resolve_conversations ::
  "summary_row list \<Rightarrow> conversation list \<Rightarrow> store \<Rightarrow> (error + conversation list) \<times> store" where
  "resolve_conversations [] conversations s = (Inr conversations, s)"
| "resolve_conversations (row # rows) conversations s =
     (case execute (select_participants (s_conversation_id row)) s of
        (Inl e, s1) \<Rightarrow> (Inl e, s1)
      | (Inr participants_result, s1) \<Rightarrow>
          (case participants_result of
             [] \<Rightarrow> resolve_conversations rows conversations s1
           | participant # _ \<Rightarrow>
               resolve_conversations rows
                 (conversations @
                    [\<lparr>c_id = s_conversation_id row,
                      c_user1_id = p_user1_id participant,
                      c_user2_id = p_user2_id participant,
                      c_last_message_at = s_last_message_timestamp row,
                      c_last_message_content = s_last_message_content row\<rparr>]) s1))"

definition get_user_conversations ::
  "int \<Rightarrow> int \<Rightarrow> int \<Rightarrow> store \<Rightarrow> (error + conversation paged) \<times> store" where
  "get_user_conversations user_id page limit s =
     (let fetch_limit = page * limit in
      case execute (select_conversations_by_user user_id fetch_limit) s of
        (Inl e, s1) \<Rightarrow> (Inl e, s1)
      | (Inr rows, s1) \<Rightarrow>
          (case resolve_conversations rows [] s1 of
             (Inl e, s2) \<Rightarrow> (Inl e, s2)
           | (Inr conversations, s2) \<Rightarrow>
               (let start_idx = (page - 1) * limit;
                    end_idx = start_idx + limit;
                    paged_conversations = py_slice conversations start_idx end_idx
                in (Inr \<lparr>pg_total = int (length conversations), pg_page = page,
                          pg_limit = limit, pg_data = paged_conversations\<rparr>, s2))))"

text \<open>\<^verbatim>\<open>get_conversation\<close>: \<open>None\<close> is Python's \<^verbatim>\<open>None\<close>.\<close>

definition get_conversation :: "int \<Rightarrow> store \<Rightarrow> (error + conversation option) \<times> store" where
  "get_conversation conversation_id s =
     (case execute (select_participants conversation_id) s of
        (Inl e, s1) \<Rightarrow> (Inl e, s1)
      | (Inr rows, s1) \<Rightarrow>
          (case rows of
             [] \<Rightarrow> (Inr None, s1)
           | conversation # _ \<Rightarrow>
               (case execute (select_last_message conversation_id) s1 of
                  (Inl e, s2) \<Rightarrow> (Inl e, s2)
                | (Inr last_message_results, s2) \<Rightarrow>
                    (Inr (Some
                       \<lparr>c_id = p_conversation_id conversation,
                        c_user1_id = p_user1_id conversation,
                        c_user2_id = p_user2_id conversation,
                        c_last_message_at =
                          (case last_message_results of
                             [] \<Rightarrow> p_created_at conversation
                           | m # _ \<Rightarrow> m_message_timestamp m),
                        c_last_message_content =
                          (case last_message_results of
                             [] \<Rightarrow> None
                           | m # _ \<Rightarrow> Some (m_content m))\<rparr>), s2))))"

text \<open>How the \<^verbatim>\<open>for\<close> loop of \<^verbatim>\<open>create_or_get_conversation\<close> ends: by the
  \<^verbatim>\<open>return\<close> in its body, or by running out of rows.\<close>

datatype 'a loop_exit = Returned 'a | Exhausted

fun find_conversation ::
  "summary_row list \<Rightarrow> int \<Rightarrow> int \<Rightarrow> store \<Rightarrow> (error + conversation option loop_exit) \<times> store" where
  "find_conversation [] min_user_id max_user_id s = (Inr Exhausted, s)"
| "find_conversation (conversation # conversations) min_user_id max_user_id s =
     (case execute (select_participants (s_conversation_id conversation)) s of
        (Inl e, s1) \<Rightarrow> (Inl e, s1)
      | (Inr participants, s1) \<Rightarrow>
          (case participants of
             [] \<Rightarrow> find_conversation conversations min_user_id max_user_id s1
           | participant # _ \<Rightarrow>
               if (p_user1_id participant = min_user_id \<and> p_user2_id participant = max_user_id)
                  \<or> (p_user1_id participant = max_user_id \<and> p_user2_id participant = min_user_id)
               then (case get_conversation (s_conversation_id conversation) s1 of
                       (Inl e, s2) \<Rightarrow> (Inl e, s2)
                     | (Inr r, s2) \<Rightarrow> (Inr (Returned r), s2))
               else find_conversation conversations min_user_id max_user_id s1))"

text \<open>\<^verbatim>\<open>int(datetime.now().timestamp())\<close>: the whole seconds of a time, truncated
  towards zero.\<close>

definition whole_seconds :: "timestamp \<Rightarrow> int" where
  "whole_seconds t = (if 0 \<le> t then t div 1000000 else - ((- t) div 1000000))"

text \<open>\<^verbatim>\<open>create_or_get_conversation\<close>. The two readings of \<^verbatim>\<open>datetime.now()\<close>
  (the one the id is derived from, then \<^verbatim>\<open>created_at\<close>) are the arguments
  \<open>now\<close> and \<open>created_at\<close>.\<close>

definition create_or_get_conversation ::
  "int \<Rightarrow> int \<Rightarrow> timestamp \<Rightarrow> timestamp \<Rightarrow> store \<Rightarrow> (error + conversation option) \<times> store" where
  "create_or_get_conversation user1_id user2_id now created_at s =
     (let min_user_id = min user1_id user2_id;
          max_user_id = max user1_id user2_id in
      case execute (select_conversation_ids min_user_id) s of
        (Inl e, s1) \<Rightarrow> (Inl e, s1)
      | (Inr conversations, s1) \<Rightarrow>
     (case find_conversation conversations min_user_id max_user_id s1 of
        (Inl e, s2) \<Rightarrow> (Inl e, s2)
      | (Inr (Returned r), s2) \<Rightarrow> (Inr r, s2)
      | (Inr Exhausted, s2) \<Rightarrow>
     (let conversation_id = whole_seconds now in
      case execute (insert_conversation_participants
             \<lparr>p_conversation_id = conversation_id, p_user1_id = min_user_id,
              p_user2_id = max_user_id, p_created_at = created_at\<rparr>) s2 of
        (Inl e, s3) \<Rightarrow> (Inl e, s3)
      | (Inr _, s3) \<Rightarrow>
     (case execute (insert_conversation_by_user
             \<lparr>s_user_id = min_user_id, s_last_message_timestamp = created_at,
              s_conversation_id = conversation_id, s_other_user_id = max_user_id,
              s_last_message_content = None\<rparr>) s3 of
        (Inl e, s4) \<Rightarrow> (Inl e, s4)
      | (Inr _, s4) \<Rightarrow>
     (case execute (insert_conversation_by_user
             \<lparr>s_user_id = max_user_id, s_last_message_timestamp = created_at,
              s_conversation_id = conversation_id, s_other_user_id = min_user_id,
              s_last_message_content = None\<rparr>) s4 of
        (Inl e, s5) \<Rightarrow> (Inl e, s5)
      | (Inr _, s5) \<Rightarrow>
          (Inr (Some \<lparr>c_id = conversation_id, c_user1_id = min_user_id,
                      c_user2_id = max_user_id, c_last_message_at = created_at,
                      c_last_message_content = None\<rparr>), s5))))))"

section \<open>Notions the properties are stated with\<close>

text \<open>Newest first: by timestamp descending, ties by message id ascending.\<close>

definition newest_first :: "message_row \<Rightarrow> message_row \<Rightarrow> bool" where
  "newest_first a b \<longleftrightarrow>
     m_message_timestamp b < m_message_timestamp a
     \<or> (m_message_timestamp a = m_message_timestamp b \<and> m_message_id a \<le> m_message_id b)"

subsection \<open>A store to run the operations on\<close>

text \<open>Users 5 and 9 share conversation 100 with three messages, two of them at the same
  time; users 5 and 7 share conversation 101 without messages; user 5 has a summary row
  for a conversation 77 that has no participants row.\<close>

definition demo_tables :: tables where
  "demo_tables =
     \<lparr>messages_by_conversation =
        [\<lparr>m_conversation_id = 100, m_message_timestamp = 10, m_message_id = 42,
          m_sender_id = 5, m_receiver_id = 9, m_content = ''hi''\<rparr>,
         \<lparr>m_conversation_id = 100, m_message_timestamp = 20, m_message_id = 43,
          m_sender_id = 5, m_receiver_id = 9, m_content = ''re''\<rparr>,
         \<lparr>m_conversation_id = 100, m_message_timestamp = 20, m_message_id = 41,
          m_sender_id = 9, m_receiver_id = 5, m_content = ''yo''\<rparr>],
      conversations_by_user =
        [\<lparr>s_user_id = 5, s_last_message_timestamp = 3, s_conversation_id = 77,
          s_other_user_id = 8, s_last_message_content = None\<rparr>,
         \<lparr>s_user_id = 5, s_last_message_timestamp = 5, s_conversation_id = 100,
          s_other_user_id = 9, s_last_message_content = None\<rparr>,
         \<lparr>s_user_id = 9, s_last_message_timestamp = 5, s_conversation_id = 100,
          s_other_user_id = 5, s_last_message_content = None\<rparr>,
         \<lparr>s_user_id = 5, s_last_message_timestamp = 6, s_conversation_id = 101,
          s_other_user_id = 7, s_last_message_content = None\<rparr>,
         \<lparr>s_user_id = 7, s_last_message_timestamp = 6, s_conversation_id = 101,
          s_other_user_id = 5, s_last_message_content = None\<rparr>,
         \<lparr>s_user_id = 5, s_last_message_timestamp = 10, s_conversation_id = 100,
          s_other_user_id = 9, s_last_message_content = Some ''hi''\<rparr>,
         \<lparr>s_user_id = 9, s_last_message_timestamp = 10, s_conversation_id = 100,
          s_other_user_id = 5, s_last_message_content = Some ''hi''\<rparr>,
         \<lparr>s_user_id = 5, s_last_message_timestamp = 20, s_conversation_id = 100,
          s_other_user_id = 9, s_last_message_content = Some ''re''\<rparr>,
         \<lparr>s_user_id = 9, s_last_message_timestamp = 20, s_conversation_id = 100,
          s_other_user_id = 5, s_last_message_content = Some ''re''\<rparr>],
      conversation_participants =
        [\<lparr>p_conversation_id = 100, p_user1_id = 5, p_user2_id = 9, p_created_at = 5\<rparr>,
         \<lparr>p_conversation_id = 101, p_user1_id = 5, p_user2_id = 7, p_created_at = 6\<rparr>]\<rparr>"

definition demo_store :: store where
  "demo_store = \<lparr>db = demo_tables, faults = []\<rparr>"

text \<open>The same tables behind a session that raises at its query number \<open>n\<close>, counting
  from zero.\<close>

definition flaky_store :: "nat \<Rightarrow> store" where
  "flaky_store n = \<lparr>db = demo_tables, faults = replicate n None @ [Some (QueryFailure ''timeout'')]\<rparr>"



text \<open>The page window of the specification: the items at the zero-based offsets \<open>i\<close>
  with \<open>(page - 1) * limit \<le> i < page * limit\<close>, as far as the list has them.\<close>

definition page_window :: "'a list \<Rightarrow> int \<Rightarrow> int \<Rightarrow> 'a list" where
  "page_window xs page limit =
     map (\<lambda>i. xs ! i) [nat ((page - 1) * limit) ..< min (nat (page * limit)) (length xs)]"

text \<open>No two rows of a table share a primary key.\<close>

definition keys_unique :: "tables \<Rightarrow> bool" where
  "keys_unique t \<longleftrightarrow>
     distinct (map message_key (messages_by_conversation t))
     \<and> distinct (map summary_key (conversations_by_user t))
     \<and> distinct (map p_conversation_id (conversation_participants t))"

text \<open>What a summary row resolves to: nothing when the participants lookup returns no
  row, otherwise the conversation built from the summary and the first row returned.\<close>

definition resolve_row :: "tables \<Rightarrow> summary_row \<Rightarrow> conversation option" where
  "resolve_row t row =
     (case participants_partition (s_conversation_id row) t of
        [] \<Rightarrow> None
      | participant # _ \<Rightarrow>
          Some \<lparr>c_id = s_conversation_id row,
                c_user1_id = p_user1_id participant,
                c_user2_id = p_user2_id participant,
                c_last_message_at = s_last_message_timestamp row,
                c_last_message_content = s_last_message_content row\<rparr>)"

text \<open>The resolved list: the summary rows that resolve, in their order.\<close>

definition resolved :: "tables \<Rightarrow> summary_row list \<Rightarrow> conversation list" where
  "resolved t rows = List.map_filter (resolve_row t) rows"

definition has_participants :: "tables \<Rightarrow> summary_row \<Rightarrow> bool" where
  "has_participants t row \<longleftrightarrow>
     (\<exists>p \<in> set (conversation_participants t). p_conversation_id p = s_conversation_id row)"

subsection \<open>Query outcomes and sequences of writes\<close>

text \<open>The session raises nothing in the next \<open>n\<close> queries.\<close>

definition quiet :: "nat \<Rightarrow> store \<Rightarrow> bool" where
  "quiet n s \<longleftrightarrow> list_all (\<lambda>outcome. outcome = None) (take n (faults s))"

text \<open>The store after \<open>n\<close> queries that changed no table.\<close>

definition advance :: "nat \<Rightarrow> store \<Rightarrow> store" where
  "advance n s = s\<lparr>faults := drop n (faults s)\<rparr>"

text \<open>The tables after the first \<open>k\<close> writes of a sequence of writes.\<close>

definition written :: "(tables \<Rightarrow> tables) list \<Rightarrow> nat \<Rightarrow> tables \<Rightarrow> tables" where
  "written writes k t = fold (\<lambda>w. w) (take k writes) t"

text \<open>The rows \<^verbatim>\<open>create_message\<close> binds to its three \<^verbatim>\<open>INSERT\<close> statements.\<close>

definition new_message_row ::
  "int \<Rightarrow> int \<Rightarrow> string \<Rightarrow> int \<Rightarrow> uuid \<Rightarrow> timestamp \<Rightarrow> message_row" where
  "new_message_row sender_id receiver_id content conversation_id message_id message_timestamp =
     \<lparr>m_conversation_id = conversation_id, m_message_timestamp = message_timestamp,
      m_message_id = message_id, m_sender_id = sender_id,
      m_receiver_id = receiver_id, m_content = content\<rparr>"

definition summary_for ::
  "int \<Rightarrow> int \<Rightarrow> int \<Rightarrow> timestamp \<Rightarrow> string option \<Rightarrow> summary_row" where
  "summary_for user_id other_user_id conversation_id t content =
     \<lparr>s_user_id = user_id, s_last_message_timestamp = t,
      s_conversation_id = conversation_id, s_other_user_id = other_user_id,
      s_last_message_content = content\<rparr>"

definition create_message_writes ::
  "int \<Rightarrow> int \<Rightarrow> string \<Rightarrow> int \<Rightarrow> uuid \<Rightarrow> timestamp \<Rightarrow> (tables \<Rightarrow> tables) list" where
  "create_message_writes sender_id receiver_id content conversation_id message_id message_timestamp =
     [put_message (new_message_row sender_id receiver_id content conversation_id
                     message_id message_timestamp),
      put_summary (summary_for sender_id receiver_id conversation_id message_timestamp
                     (Some content)),
      put_summary (summary_for receiver_id sender_id conversation_id message_timestamp
                     (Some content))]"

text \<open>The rows \<^verbatim>\<open>create_or_get_conversation\<close> binds to its three \<^verbatim>\<open>INSERT\<close>
  statements when it creates a conversation.\<close>

definition new_participants_row :: "int \<Rightarrow> int \<Rightarrow> timestamp \<Rightarrow> timestamp \<Rightarrow> participants_row" where
  "new_participants_row user1_id user2_id now created_at =
     \<lparr>p_conversation_id = whole_seconds now, p_user1_id = min user1_id user2_id,
      p_user2_id = max user1_id user2_id, p_created_at = created_at\<rparr>"

definition create_conversation_writes ::
  "int \<Rightarrow> int \<Rightarrow> timestamp \<Rightarrow> timestamp \<Rightarrow> (tables \<Rightarrow> tables) list" where
  "create_conversation_writes user1_id user2_id now created_at =
     [put_participants (new_participants_row user1_id user2_id now created_at),
      put_summary (summary_for (min user1_id user2_id) (max user1_id user2_id)
                     (whole_seconds now) created_at None),
      put_summary (summary_for (max user1_id user2_id) (min user1_id user2_id)
                     (whole_seconds now) created_at None)]"

text \<open>Whether a summary row leads to a conversation of the two users: the test in the
  loop of \<^verbatim>\<open>create_or_get_conversation\<close>.\<close>

definition matches :: "tables \<Rightarrow> int \<Rightarrow> int \<Rightarrow> summary_row \<Rightarrow> bool" where
  "matches t min_user_id max_user_id row \<longleftrightarrow>
     (case participants_partition (s_conversation_id row) t of
        [] \<Rightarrow> False
      | participant # _ \<Rightarrow>
          (p_user1_id participant = min_user_id \<and> p_user2_id participant = max_user_id)
          \<or> (p_user1_id participant = max_user_id \<and> p_user2_id participant = min_user_id))"

text \<open>Every stored pair is in canonical order.\<close>

definition participants_canonical :: "tables \<Rightarrow> bool" where
  "participants_canonical t \<longleftrightarrow>
     list_all (\<lambda>p. p_user1_id p \<le> p_user2_id p) (conversation_participants t)"

subsection \<open>Null columns\<close>

text \<open>The value bound to a column of an \<^verbatim>\<open>INSERT\<close>: null (Python's \<^verbatim>\<open>None\<close>) or a value
  of the column's type.\<close>

datatype cql_value = Null | Int_value int | Timestamp_value timestamp | Text_value string

text \<open>The two columns of a \<^verbatim>\<open>conversations_by_user\<close> row named
  \<^verbatim>\<open>last_message_timestamp\<close> and \<^verbatim>\<open>last_message_content\<close>.\<close>

definition last_message_fields :: "summary_row \<Rightarrow> cql_value list" where
  "last_message_fields r =
     [Timestamp_value (s_last_message_timestamp r),
      (case s_last_message_content r of None \<Rightarrow> Null | Some c \<Rightarrow> Text_value c)]"

definition last_message_fields_null :: "summary_row \<Rightarrow> bool" where
  "last_message_fields_null r \<longleftrightarrow> last_message_fields r = [Null, Null]"

subsection \<open>Rows before a time\<close>

text \<open>The number of rows of a conversation whose time is strictly less than a given
  time, the two compared as they are.\<close>

definition rows_before :: "int \<Rightarrow> timestamp \<Rightarrow> tables \<Rightarrow> nat" where
  "rows_before conversation_id before_timestamp t =
     length (filter (\<lambda>m. m_conversation_id m = conversation_id
                          \<and> m_message_timestamp m < before_timestamp)
               (messages_by_conversation t))"

text \<open>A store with one message, sent at 5.000 s.\<close>

definition boundary_store :: store where
  "boundary_store =
     \<lparr>db = \<lparr>messages_by_conversation =
              [\<lparr>m_conversation_id = 1, m_message_timestamp = 5000000, m_message_id = 1,
                m_sender_id = 5, m_receiver_id = 9, m_content = ''hi''\<rparr>],
            conversations_by_user = [],
            conversation_participants = []\<rparr>,
      faults = []\<rparr>"

section \<open>Running queries when the session raises nothing\<close>

lemma execute_select_participants:
  "faults s = [] \<Longrightarrow>
   execute (select_participants c) s = (Inr (participants_partition c (db s)), s)"
  by (simp add: execute_def run_def select_participants_def)

lemma execute_select_conversation_ids:
  "faults s = [] \<Longrightarrow>
   execute (select_conversation_ids u) s = (Inr (summaries_partition u (db s)), s)"
  by (simp add: execute_def run_def select_conversation_ids_def)


lemma execute_select_messages_before:
  "faults s = [] \<Longrightarrow> 0 < n \<Longrightarrow>
   execute (select_messages_before c b n) s =
     (Inr (take (nat n) (filter (stored_before b) (messages_partition c (db s)))), s)"
  by (simp add: execute_def run_def select_messages_before_def limited_def limit_rows_def)

lemma execute_count_messages_before:
  "faults s = [] \<Longrightarrow>
   execute (count_messages_before c b) s =
     (Inr [int (length (filter (stored_before b) (messages_partition c (db s))))], s)"
  by (simp add: execute_def run_def count_messages_before_def)

lemma execute_select_conversations_by_user:
  "faults s = [] \<Longrightarrow> 0 < n \<Longrightarrow>
   execute (select_conversations_by_user u n) s =
     (Inr (take (nat n) (summaries_partition u (db s))), s)"
  by (simp add: execute_def run_def select_conversations_by_user_def limited_def limit_rows_def)

lemma execute_select_last_message:
  "faults s = [] \<Longrightarrow>
   execute (select_last_message c) s = (Inr (take 1 (messages_partition c (db s))), s)"
  by (simp add: execute_def run_def select_last_message_def limited_def limit_rows_def)

lemma set_messages_partition:
  "set (messages_partition c t) =
     {m \<in> set (messages_by_conversation t). m_conversation_id m = c}"
  by (auto simp: messages_partition_def)


lemma sorted_messages_partition:
  "sorted (map message_clustering (messages_partition c t))"
  by (simp add: messages_partition_def)

lemma messages_partition_Nil:
  "messages_partition c t = [] \<longleftrightarrow>
     (\<forall>m \<in> set (messages_by_conversation t). m_conversation_id m \<noteq> c)"
proof -
  have "messages_partition c t = [] \<longleftrightarrow> set (messages_partition c t) = {}"
    by simp
  then show ?thesis
    unfolding set_messages_partition by blast
qed

lemma messages_partition_head:
  assumes "messages_partition c t = m # ms"
  shows "m \<in> set (messages_by_conversation t)" "m_conversation_id m = c"
    "\<forall>m' \<in> set (messages_by_conversation t). m_conversation_id m' = c \<longrightarrow>
        message_clustering m \<le> message_clustering m'"
proof -
  have mem: "m \<in> set (messages_partition c t)" using assms by simp
  then show "m \<in> set (messages_by_conversation t)" "m_conversation_id m = c"
    by (simp_all add: set_messages_partition)
  have "sorted (map message_clustering (m # ms))"
    using sorted_messages_partition [of c t] assms by simp
  then have "\<forall>m' \<in> set (m # ms). message_clustering m \<le> message_clustering m'"
    by auto
  then show "\<forall>m' \<in> set (messages_by_conversation t). m_conversation_id m' = c \<longrightarrow>
        message_clustering m \<le> message_clustering m'"
    using assms set_messages_partition [of c t] by auto
qed

lemma participants_partition_Nil:
  "participants_partition c t = [] \<longleftrightarrow>
     (\<forall>p \<in> set (conversation_participants t). p_conversation_id p \<noteq> c)"
  by (auto simp: participants_partition_def filter_empty_conv)

lemma participants_partition_head:
  "participants_partition c t = p # ps \<Longrightarrow>
     p \<in> set (conversation_participants t) \<and> p_conversation_id p = c"
proof -
  assume "participants_partition c t = p # ps"
  then have "p \<in> set (participants_partition c t)" by simp
  then show ?thesis by (simp add: participants_partition_def)
qed

lemma get_conversation_absent:
  "faults s = [] \<Longrightarrow> participants_partition c (db s) = [] \<Longrightarrow>
   get_conversation c s = (Inr None, s)"
  by (simp add: get_conversation_def execute_select_participants)

lemma get_conversation_present:
  "faults s = [] \<Longrightarrow> participants_partition c (db s) = p # ps \<Longrightarrow>
   get_conversation c s =
     (Inr (Some \<lparr>c_id = c, c_user1_id = p_user1_id p, c_user2_id = p_user2_id p,
                 c_last_message_at =
                   (case messages_partition c (db s) of
                      [] \<Rightarrow> p_created_at p | m # _ \<Rightarrow> m_message_timestamp m),
                 c_last_message_content =
                   (case messages_partition c (db s) of
                      [] \<Rightarrow> None | m # _ \<Rightarrow> Some (m_content m))\<rparr>), s)"
  using participants_partition_head [of c "db s" p ps]
  by (simp add: get_conversation_def execute_select_participants execute_select_last_message
      split: list.splits)

lemma newest_first_iff: "newest_first a b \<longleftrightarrow> message_clustering a \<le> message_clustering b"
  by (auto simp: newest_first_def message_clustering_def)

lemma get_conversation_no_messages:
  assumes "faults s = []" "participants_partition cid (db s) = p # ps"
    "messages_partition cid (db s) = []"
  shows "get_conversation cid s =
     (Inr (Some \<lparr>c_id = cid, c_user1_id = p_user1_id p, c_user2_id = p_user2_id p,
                 c_last_message_at = p_created_at p, c_last_message_content = None\<rparr>), s)"
  using get_conversation_present [OF assms(1,2)] assms(3) by simp

lemma get_conversation_last_message:
  assumes "faults s = []" "participants_partition cid (db s) = p # ps"
    "messages_partition cid (db s) = m # ms"
  shows "get_conversation cid s =
     (Inr (Some \<lparr>c_id = cid, c_user1_id = p_user1_id p, c_user2_id = p_user2_id p,
                 c_last_message_at = m_message_timestamp m,
                 c_last_message_content = Some (m_content m)\<rparr>), s)"
  using get_conversation_present [OF assms(1,2)] assms(3) by simp


section \<open>Slices and the clustering order\<close>

lemma slice_nat:
  "take (min (length xs) b - min (length xs) a) (drop (min (length xs) a) xs)
     = map (\<lambda>i. xs ! i) [a ..< min b (length xs)]"
proof (cases "a \<le> length xs")
  case True
  have "map (\<lambda>i. xs ! i) [a ..< min b (length xs)] = drop a (take (min b (length xs)) xs)"
    by (rule nth_equalityI) (auto simp: min_def)
  also have "\<dots> = take (min b (length xs) - a) (drop a xs)"
    by (simp add: drop_take)
  finally show ?thesis using True by (simp add: min.commute min_absorb2)
next
  case False
  then show ?thesis by simp
qed

lemma py_slice_window:
  assumes "0 \<le> (page - 1) * limit" "0 \<le> page * limit"
  shows "py_slice xs ((page - 1) * limit) ((page - 1) * limit + limit) = page_window xs page limit"
proof -
  have e: "(page - 1) * limit + limit = page * limit" by (simp add: algebra_simps)
  show ?thesis
    unfolding e py_slice_def page_window_def Let_def slice_index_def
    using assms slice_nat [of xs "nat (page * limit)" "nat ((page - 1) * limit)"]
    by simp
qed

lemma window_start_nonneg:
  assumes "0 < page * (limit::int)"
  shows "0 \<le> (page - 1) * limit"
proof (cases "0 < limit")
  case True
  with assms have "0 < page" by (simp add: zero_less_mult_iff)
  with True show ?thesis by simp
next
  case False
  with assms have "page < 0" "limit < 0" by (auto simp: zero_less_mult_iff)
  then show ?thesis by (simp add: zero_le_mult_iff)
qed

lemma py_slice_map: "py_slice (map f xs) i j = map f (py_slice xs i j)"
  by (simp add: py_slice_def Let_def take_map drop_map)


lemma set_py_slice: "set (py_slice xs i j) \<subseteq> set xs"
  unfolding py_slice_def Let_def
  by (meson set_take_subset set_drop_subset subset_trans)






section \<open>The example store, evaluated\<close>

lemma demo_messages_100:
  "messages_partition 100 (db demo_store) =
     [\<lparr>m_conversation_id = 100, m_message_timestamp = 20, m_message_id = 41,
       m_sender_id = 9, m_receiver_id = 5, m_content = ''yo''\<rparr>,
      \<lparr>m_conversation_id = 100, m_message_timestamp = 20, m_message_id = 43,
       m_sender_id = 5, m_receiver_id = 9, m_content = ''re''\<rparr>,
      \<lparr>m_conversation_id = 100, m_message_timestamp = 10, m_message_id = 42,
       m_sender_id = 5, m_receiver_id = 9, m_content = ''hi''\<rparr>]"
  by (simp add: messages_partition_def demo_store_def demo_tables_def message_clustering_def)

lemma demo_participants:
  "participants_partition 999 (db demo_store) = []"
  "participants_partition 101 (db demo_store) =
     [\<lparr>p_conversation_id = 101, p_user1_id = 5, p_user2_id = 7, p_created_at = 6\<rparr>]"
  "participants_partition 100 (db demo_store) =
     [\<lparr>p_conversation_id = 100, p_user1_id = 5, p_user2_id = 9, p_created_at = 5\<rparr>]"
  by (simp_all add: participants_partition_def demo_store_def demo_tables_def)

lemma demo_summaries_5:
  "summaries_partition 5 (db demo_store) =
     [\<lparr>s_user_id = 5, s_last_message_timestamp = 20, s_conversation_id = 100,
       s_other_user_id = 9, s_last_message_content = Some ''re''\<rparr>,
      \<lparr>s_user_id = 5, s_last_message_timestamp = 10, s_conversation_id = 100,
       s_other_user_id = 9, s_last_message_content = Some ''hi''\<rparr>,
      \<lparr>s_user_id = 5, s_last_message_timestamp = 6, s_conversation_id = 101,
       s_other_user_id = 7, s_last_message_content = None\<rparr>,
      \<lparr>s_user_id = 5, s_last_message_timestamp = 5, s_conversation_id = 100,
       s_other_user_id = 9, s_last_message_content = None\<rparr>,
      \<lparr>s_user_id = 5, s_last_message_timestamp = 3, s_conversation_id = 77,
       s_other_user_id = 8, s_last_message_content = None\<rparr>]"
  by (simp add: summaries_partition_def demo_store_def demo_tables_def summary_clustering_def)

lemma demo_has_participants:
  "has_participants (db demo_store) row \<longleftrightarrow> s_conversation_id row \<in> {100, 101}"
  by (auto simp: has_participants_def demo_store_def demo_tables_def)

lemma demo_participants_77: "participants_partition 77 (db demo_store) = []"
  by (simp add: participants_partition_def demo_store_def demo_tables_def)

lemma demo_summaries_7:
  "summaries_partition 7 demo_tables =
     [\<lparr>s_user_id = 7, s_last_message_timestamp = 6, s_conversation_id = 101,
       s_other_user_id = 5, s_last_message_content = None\<rparr>]"
  by (simp add: summaries_partition_def demo_tables_def)

lemma demo_faults: "faults demo_store = []"
  by (simp add: demo_store_def)

lemma demo_db: "db demo_store = demo_tables"
  by (simp add: demo_store_def)

lemma demo_canonical: "participants_canonical (db demo_store)"
  by (simp add: participants_canonical_def demo_store_def demo_tables_def)

lemma demo_no_match_7_9:
  "\<forall>row \<in> set (summaries_partition (min 9 7) (db demo_store)).
     \<not> matches (db demo_store) (min 9 7) (max 9 7) row"
  by (simp add: demo_db demo_summaries_7 matches_def participants_partition_def demo_tables_def)

lemma demo_no_pair_8:
  "\<forall>p \<in> set (conversation_participants (db demo_store)).
     \<not> (p_user1_id p = 8 \<and> p_user2_id p = 8)"
  by (simp add: demo_db demo_tables_def)

section \<open>Writes, quiet sessions and raised errors\<close>

lemma db_advance [simp]: "db (advance n s) = db s"
  by (simp add: advance_def)

lemma faults_advance [simp]: "faults (advance n s) = drop n (faults s)"
  by (simp add: advance_def)

lemma advance_advance: "advance m (advance n s) = advance (n + m) s"
  by (simp add: advance_def add.commute)

lemma advance_0 [simp]: "advance 0 s = s"
  by (simp add: advance_def)

lemma quiet_0 [simp]: "quiet 0 s"
  by (simp add: quiet_def)

lemma quiet_no_faults: "faults s = [] \<Longrightarrow> quiet n s"
  by (simp add: quiet_def)

lemma quiet_replicate: "faults s = replicate n None @ fs \<Longrightarrow> quiet n s"
  by (simp add: quiet_def list_all_iff)

lemma quiet_mono: "quiet n s \<Longrightarrow> m \<le> n \<Longrightarrow> quiet m s"
  unfolding quiet_def list_all_iff
  by (metis min.absorb1 set_take_subset subsetD take_take)

lemma quiet_advance: "quiet (m + n) s \<Longrightarrow> quiet n (advance m s)"
proof -
  assume q: "quiet (m + n) s"
  have "set (take n (drop m (faults s))) \<subseteq> set (take (m + n) (faults s))"
    by (simp add: take_drop add.commute set_drop_subset)
  with q show ?thesis
    by (auto simp: quiet_def list_all_iff)
qed

lemma quiet_Suc_advance: "quiet (Suc n) s \<Longrightarrow> quiet n (advance (Suc 0) s)"
  using quiet_advance [of "Suc 0" n s] by simp

lemma quiet_db_update [simp]: "quiet n (s\<lparr>db := t\<rparr>) = quiet n s"
  by (simp add: quiet_def)

lemma execute_quiet:
  assumes "quiet (Suc n) s"
  shows "execute statement s = run statement (advance (Suc 0) s)"
proof (cases "faults s")
  case Nil
  then have "advance (Suc 0) s = s\<lparr>faults := faults s\<rparr>" by (simp add: advance_def)
  then have same: "advance (Suc 0) s = s" by simp
  show ?thesis unfolding same using Nil by (simp add: execute_def)
next
  case (Cons outcome fs)
  with assms have "outcome = None" by (simp add: quiet_def)
  with Cons show ?thesis by (simp add: execute_def advance_def)
qed

lemma run_insert_message:
  "run (insert_message r) s = (Inr (), s\<lparr>db := put_message r (db s)\<rparr>)"
  by (simp add: run_def insert_message_def)

lemma run_insert_conversation_by_user:
  "run (insert_conversation_by_user r) s = (Inr (), s\<lparr>db := put_summary r (db s)\<rparr>)"
  by (simp add: run_def insert_conversation_by_user_def)

lemma run_insert_conversation_participants:
  "run (insert_conversation_participants r) s = (Inr (), s\<lparr>db := put_participants r (db s)\<rparr>)"
  by (simp add: run_def insert_conversation_participants_def)

lemma run_select_participants:
  "run (select_participants c) s = (Inr (participants_partition c (db s)), s)"
  by (simp add: run_def select_participants_def)

lemma run_select_conversation_ids:
  "run (select_conversation_ids u) s = (Inr (summaries_partition u (db s)), s)"
  by (simp add: run_def select_conversation_ids_def)

lemma execute_insert_message_quiet:
  "quiet (Suc n) s \<Longrightarrow>
   execute (insert_message r) s = (Inr (), (advance (Suc 0) s)\<lparr>db := put_message r (db s)\<rparr>)"
  by (simp add: execute_quiet run_insert_message)

lemma execute_insert_conversation_by_user_quiet:
  "quiet (Suc n) s \<Longrightarrow>
   execute (insert_conversation_by_user r) s =
     (Inr (), (advance (Suc 0) s)\<lparr>db := put_summary r (db s)\<rparr>)"
  by (simp add: execute_quiet run_insert_conversation_by_user)

lemma execute_insert_conversation_participants_quiet:
  "quiet (Suc n) s \<Longrightarrow>
   execute (insert_conversation_participants r) s =
     (Inr (), (advance (Suc 0) s)\<lparr>db := put_participants r (db s)\<rparr>)"
  by (simp add: execute_quiet run_insert_conversation_participants)

lemma create_message_quiet:
  assumes "quiet 3 s"
  shows "create_message sender_id receiver_id content cid mid ts s =
     (Inr \<lparr>msg_id = Str mid, msg_conversation_id = cid, msg_sender_id = sender_id,
           msg_receiver_id = receiver_id, msg_content = content, msg_created_at = ts\<rparr>,
      (advance 3 s)\<lparr>db :=
         put_summary (summary_for receiver_id sender_id cid ts (Some content))
           (put_summary (summary_for sender_id receiver_id cid ts (Some content))
              (put_message (new_message_row sender_id receiver_id content cid mid ts) (db s)))\<rparr>)"
proof -
  let ?m = "new_message_row sender_id receiver_id content cid mid ts"
  let ?r1 = "summary_for sender_id receiver_id cid ts (Some content)"
  let ?r2 = "summary_for receiver_id sender_id cid ts (Some content)"
  define s1 where "s1 = (advance (Suc 0) s)\<lparr>db := put_message ?m (db s)\<rparr>"
  define s2 where "s2 = (advance (Suc 0) s1)\<lparr>db := put_summary ?r1 (db s1)\<rparr>"
  define s3 where "s3 = (advance (Suc 0) s2)\<lparr>db := put_summary ?r2 (db s2)\<rparr>"
  have q1: "quiet (Suc (Suc (Suc 0))) s" using assms by (simp add: numeral_3_eq_3)
  have q2: "quiet (Suc (Suc 0)) s1"
    unfolding s1_def using quiet_Suc_advance [OF q1] by simp
  have q3: "quiet (Suc 0) s2"
    unfolding s2_def using quiet_Suc_advance [OF q2] by simp
  have e1: "execute (insert_message ?m) s = (Inr (), s1)"
    unfolding s1_def by (rule execute_insert_message_quiet [OF q1])
  have e2: "execute (insert_conversation_by_user ?r1) s1 = (Inr (), s2)"
    unfolding s2_def by (rule execute_insert_conversation_by_user_quiet [OF q2])
  have e3: "execute (insert_conversation_by_user ?r2) s2 = (Inr (), s3)"
    unfolding s3_def by (rule execute_insert_conversation_by_user_quiet [OF q3])
  have fin: "s3 = (advance 3 s)\<lparr>db := put_summary ?r2 (put_summary ?r1 (put_message ?m (db s)))\<rparr>"
    by (simp add: s3_def s2_def s1_def advance_def numeral_3_eq_3)
  have "create_message sender_id receiver_id content cid mid ts s =
     (Inr \<lparr>msg_id = Str mid, msg_conversation_id = cid, msg_sender_id = sender_id,
           msg_receiver_id = receiver_id, msg_content = content, msg_created_at = ts\<rparr>, s3)"
    unfolding create_message_def
    using e1 e2 e3 by (simp add: new_message_row_def summary_for_def)
  then show ?thesis unfolding fin .
qed

lemma create_message_raises:
  assumes "faults s = replicate k None @ Some e # fs" "k < 3"
  shows "create_message sender_id receiver_id content cid mid ts s =
     (Inl e, s\<lparr>db := written (create_message_writes sender_id receiver_id content cid mid ts)
                        k (db s),
               faults := fs\<rparr>)"
proof -
  from assms(2) consider "k = 0" | "k = Suc 0" | "k = Suc (Suc 0)" by linarith
  then show ?thesis
  proof cases
    case 1
    with assms(1) have "faults s = Some e # fs" by simp
    then show ?thesis
      unfolding 1 by (simp add: create_message_def execute_def written_def)
  next
    case 2
    with assms(1) have "faults s = None # Some e # fs" by simp
    then show ?thesis
      unfolding 2
      by (simp add: create_message_def execute_def run_def insert_message_def written_def
          create_message_writes_def new_message_row_def)
  next
    case 3
    with assms(1) have "faults s = None # None # Some e # fs" by simp
    then show ?thesis
      unfolding 3
      by (simp add: create_message_def execute_def run_def insert_message_def
          insert_conversation_by_user_def written_def
          create_message_writes_def new_message_row_def summary_for_def)
  qed
qed

lemma execute_select_participants_quiet:
  "quiet (Suc n) s \<Longrightarrow>
   execute (select_participants c) s =
     (Inr (participants_partition c (db s)), advance (Suc 0) s)"
  by (simp add: execute_quiet run_select_participants)

lemma execute_select_conversation_ids_quiet:
  "quiet (Suc n) s \<Longrightarrow>
   execute (select_conversation_ids u) s =
     (Inr (summaries_partition u (db s)), advance (Suc 0) s)"
  by (simp add: execute_quiet run_select_conversation_ids)

lemma find_conversation_exhausted:
  "\<forall>row \<in> set rows. \<not> matches (db s) mn mx row \<Longrightarrow> quiet (length rows) s \<Longrightarrow>
   find_conversation rows mn mx s = (Inr Exhausted, advance (length rows) s)"
proof (induction rows arbitrary: s)
  case Nil
  then show ?case by simp
next
  case (Cons row rows)
  let ?s1 = "advance (Suc 0) s"
  have q: "quiet (Suc (length rows)) s" using Cons.prems(2) by simp
  have e: "execute (select_participants (s_conversation_id row)) s =
             (Inr (participants_partition (s_conversation_id row) (db s)), ?s1)"
    by (rule execute_select_participants_quiet [OF q])
  have rest: "find_conversation rows mn mx ?s1 = (Inr Exhausted, advance (length rows) ?s1)"
    using Cons.prems(1) quiet_Suc_advance [OF q] by (intro Cons.IH) simp_all
  have adv: "advance (length rows) ?s1 = advance (length (row # rows)) s"
    by (simp add: advance_advance)
  have no: "\<not> matches (db s) mn mx row" using Cons.prems(1) by simp
  show ?case
  proof (cases "participants_partition (s_conversation_id row) (db s)")
    case Nil
    then show ?thesis using e rest adv by simp
  next
    case (Cons p ps)
    with no have "\<not> ((p_user1_id p = mn \<and> p_user2_id p = mx)
                    \<or> (p_user1_id p = mx \<and> p_user2_id p = mn))"
      by (simp add: matches_def)
    with Cons show ?thesis using e rest adv by auto
  qed
qed

lemma find_conversation_first_match:
  assumes "faults s = []"
  shows "find_conversation rows mn mx s =
     (case List.find (matches (db s) mn mx) rows of
        None \<Rightarrow> (Inr Exhausted, s)
      | Some row \<Rightarrow>
          (case get_conversation (s_conversation_id row) s of
             (Inl e, s2) \<Rightarrow> (Inl e, s2)
           | (Inr r, s2) \<Rightarrow> (Inr (Returned r), s2)))"
proof (induction rows)
  case Nil
  then show ?case by simp
next
  case (Cons row rows)
  note e = execute_select_participants [OF assms, of "s_conversation_id row"]
  show ?case
  proof (cases "participants_partition (s_conversation_id row) (db s)")
    case Nil
    then have "\<not> matches (db s) mn mx row" by (simp add: matches_def)
    with Nil show ?thesis using e Cons.IH by simp
  next
    case (Cons p ps)
    show ?thesis
    proof (cases "matches (db s) mn mx row")
      case True
      with Cons have "(p_user1_id p = mn \<and> p_user2_id p = mx)
                    \<or> (p_user1_id p = mx \<and> p_user2_id p = mn)"
        by (simp add: matches_def)
      with Cons True show ?thesis using e by simp
    next
      case False
      with Cons have "\<not> ((p_user1_id p = mn \<and> p_user2_id p = mx)
                    \<or> (p_user1_id p = mx \<and> p_user2_id p = mn))"
        by (simp add: matches_def)
      with Cons False show ?thesis using e Cons.IH by auto
    qed
  qed
qed

lemma read_phase_exhausted:
  assumes nomatch: "\<forall>row \<in> set (summaries_partition mn (db s)). \<not> matches (db s) mn mx row"
    and q: "quiet (Suc (length (summaries_partition mn (db s)))) s"
  shows "execute (select_conversation_ids mn) s =
           (Inr (summaries_partition mn (db s)), advance (Suc 0) s)"
    and "find_conversation (summaries_partition mn (db s)) mn mx (advance (Suc 0) s) =
           (Inr Exhausted, advance (Suc (length (summaries_partition mn (db s)))) s)"
proof -
  show "execute (select_conversation_ids mn) s =
           (Inr (summaries_partition mn (db s)), advance (Suc 0) s)"
    by (rule execute_select_conversation_ids_quiet [OF q])
  have "find_conversation (summaries_partition mn (db s)) mn mx (advance (Suc 0) s) =
          (Inr Exhausted, advance (length (summaries_partition mn (db s))) (advance (Suc 0) s))"
    using nomatch quiet_Suc_advance [OF q] by (intro find_conversation_exhausted) simp_all
  then show "find_conversation (summaries_partition mn (db s)) mn mx (advance (Suc 0) s) =
           (Inr Exhausted, advance (Suc (length (summaries_partition mn (db s)))) s)"
    by (simp add: advance_advance)
qed

lemma create_or_get_conversation_creates:
  assumes nomatch: "\<forall>row \<in> set (summaries_partition (min a b) (db s)).
                      \<not> matches (db s) (min a b) (max a b) row"
    and q: "quiet (length (summaries_partition (min a b) (db s)) + 4) s"
  shows "create_or_get_conversation a b now created_at s =
     (Inr (Some \<lparr>c_id = whole_seconds now, c_user1_id = min a b, c_user2_id = max a b,
                 c_last_message_at = created_at, c_last_message_content = None\<rparr>),
      (advance (length (summaries_partition (min a b) (db s)) + 4) s)
        \<lparr>db := written (create_conversation_writes a b now created_at) 3 (db s)\<rparr>)"
proof -
  let ?n = "length (summaries_partition (min a b) (db s))"
  let ?p = "new_participants_row a b now created_at"
  let ?r1 = "summary_for (min a b) (max a b) (whole_seconds now) created_at None"
  let ?r2 = "summary_for (max a b) (min a b) (whole_seconds now) created_at None"
  define s2 where "s2 = advance (Suc ?n) s"
  define s3 where "s3 = (advance (Suc 0) s2)\<lparr>db := put_participants ?p (db s2)\<rparr>"
  define s4 where "s4 = (advance (Suc 0) s3)\<lparr>db := put_summary ?r1 (db s3)\<rparr>"
  define s5 where "s5 = (advance (Suc 0) s4)\<lparr>db := put_summary ?r2 (db s4)\<rparr>"
  have q0: "quiet (Suc ?n) s" using q by (rule quiet_mono) simp
  note reads = read_phase_exhausted [OF nomatch q0, folded s2_def]
  have "quiet (Suc ?n + Suc (Suc (Suc 0))) s" using q by (simp add: numeral_eq_Suc)
  then have q3: "quiet (Suc (Suc (Suc 0))) s2"
    unfolding s2_def by (rule quiet_advance)
  have q4: "quiet (Suc (Suc 0)) s3"
    unfolding s3_def using quiet_Suc_advance [OF q3] by simp
  have q5: "quiet (Suc 0) s4"
    unfolding s4_def using quiet_Suc_advance [OF q4] by simp
  have e3: "execute (insert_conversation_participants ?p) s2 = (Inr (), s3)"
    unfolding s3_def by (rule execute_insert_conversation_participants_quiet [OF q3])
  have e4: "execute (insert_conversation_by_user ?r1) s3 = (Inr (), s4)"
    unfolding s4_def by (rule execute_insert_conversation_by_user_quiet [OF q4])
  have e5: "execute (insert_conversation_by_user ?r2) s4 = (Inr (), s5)"
    unfolding s5_def by (rule execute_insert_conversation_by_user_quiet [OF q5])
  have fin: "s5 = (advance (?n + 4) s)
        \<lparr>db := written (create_conversation_writes a b now created_at) 3 (db s)\<rparr>"
    by (simp add: s5_def s4_def s3_def s2_def advance_def written_def
        create_conversation_writes_def numeral_eq_Suc)
  have "create_or_get_conversation a b now created_at s =
     (Inr (Some \<lparr>c_id = whole_seconds now, c_user1_id = min a b, c_user2_id = max a b,
                 c_last_message_at = created_at, c_last_message_content = None\<rparr>), s5)"
    unfolding create_or_get_conversation_def Let_def
    using reads e3 e4 e5
    by (simp add: new_participants_row_def summary_for_def)
  then show ?thesis unfolding fin .
qed

lemma create_or_get_conversation_raises:
  assumes nomatch: "\<forall>row \<in> set (summaries_partition (min a b) (db s)).
                      \<not> matches (db s) (min a b) (max a b) row"
    and f: "faults s = replicate (Suc (length (summaries_partition (min a b) (db s))) + k) None
                         @ Some e # fs"
    and k: "k < 3"
  shows "create_or_get_conversation a b now created_at s =
     (Inl e, s\<lparr>db := written (create_conversation_writes a b now created_at) k (db s),
               faults := fs\<rparr>)"
proof -
  let ?n = "length (summaries_partition (min a b) (db s))"
  let ?p = "new_participants_row a b now created_at"
  let ?r1 = "summary_for (min a b) (max a b) (whole_seconds now) created_at None"
  let ?r2 = "summary_for (max a b) (min a b) (whole_seconds now) created_at None"
  define s2 where "s2 = advance (Suc ?n) s"
  have q0: "quiet (Suc ?n) s"
    using f by (intro quiet_replicate [where fs = "replicate k None @ Some e # fs"])
      (simp add: replicate_add)
  note reads = read_phase_exhausted [OF nomatch q0, folded s2_def]
  have f2: "faults s2 = replicate k None @ Some e # fs"
    unfolding s2_def using f by (simp add: replicate_add)
  have d2: "db s2 = db s" by (simp add: s2_def)
  have "create_or_get_conversation a b now created_at s =
     (Inl e, s2\<lparr>db := written (create_conversation_writes a b now created_at) k (db s2),
                faults := fs\<rparr>)"
  proof -
    from k consider "k = 0" | "k = Suc 0" | "k = Suc (Suc 0)" by linarith
    then show ?thesis
    proof cases
      case 1
      with f2 have "faults s2 = Some e # fs" by simp
      then show ?thesis
        unfolding 1 create_or_get_conversation_def Let_def using reads
        by (simp add: execute_def written_def)
    next
      case 2
      with f2 have "faults s2 = None # Some e # fs" by simp
      then show ?thesis
        unfolding 2 create_or_get_conversation_def Let_def using reads
        by (simp add: execute_def run_def insert_conversation_participants_def written_def
            create_conversation_writes_def new_participants_row_def)
    next
      case 3
      with f2 have "faults s2 = None # None # Some e # fs" by simp
      then show ?thesis
        unfolding 3 create_or_get_conversation_def Let_def using reads
        by (simp add: execute_def run_def insert_conversation_participants_def
            insert_conversation_by_user_def written_def
            create_conversation_writes_def new_participants_row_def summary_for_def)
    qed
  qed
  moreover have "s2\<lparr>db := t, faults := fs\<rparr> = s\<lparr>db := t, faults := fs\<rparr>" for t
    by (simp add: s2_def advance_def)
  ultimately show ?thesis by (simp add: d2)
qed


section \<open>What a write leaves in the tables\<close>

lemma summary_key_for:
  "summary_key (summary_for u other c t content) = (u, t, c)"
  by (simp add: summary_key_def summary_for_def)

lemma put_twice_distinct:
  assumes "summary_key r1 \<noteq> summary_key r2"
  shows "conversations_by_user (put_summary r2 (put_summary r1 t)) =
     r2 # r1 # filter (\<lambda>q. summary_key q \<noteq> summary_key r1 \<and> summary_key q \<noteq> summary_key r2)
                 (conversations_by_user t)"
  using assms by (simp add: put_summary_def upsert_def)

lemma set_put_twice:
  assumes "summary_key r1 = summary_key r2 \<longrightarrow> r1 = r2"
  shows "set (conversations_by_user (put_summary r2 (put_summary r1 t))) =
     {r1, r2} \<union> {q \<in> set (conversations_by_user t).
                    summary_key q \<noteq> summary_key r1 \<and> summary_key q \<noteq> summary_key r2}"
  using assms by (auto simp: put_summary_def upsert_def)

lemma summary_for_same_key:
  "summary_key (summary_for u v c t content) = summary_key (summary_for v u c t content)
     \<longrightarrow> summary_for u v c t content = summary_for v u c t content"
  by (simp add: summary_key_def summary_for_def)

lemma put_summary_other_tables [simp]:
  "messages_by_conversation (put_summary r t) = messages_by_conversation t"
  "conversation_participants (put_summary r t) = conversation_participants t"
  by (simp_all add: put_summary_def)

lemma put_message_other_tables [simp]:
  "conversations_by_user (put_message r t) = conversations_by_user t"
  "conversation_participants (put_message r t) = conversation_participants t"
  by (simp_all add: put_message_def)

lemma put_participants_other_tables [simp]:
  "conversations_by_user (put_participants r t) = conversations_by_user t"
  "messages_by_conversation (put_participants r t) = messages_by_conversation t"
  by (simp_all add: put_participants_def)

lemma messages_put_message:
  "messages_by_conversation (put_message m t) =
     m # filter (\<lambda>q. message_key q \<noteq> message_key m) (messages_by_conversation t)"
  by (simp add: put_message_def upsert_def)

lemma participants_put_participants:
  "conversation_participants (put_participants p t) =
     p # filter (\<lambda>q. p_conversation_id q \<noteq> p_conversation_id p) (conversation_participants t)"
  by (simp add: put_participants_def upsert_def)

section \<open>What every write preserves\<close>

lemma distinct_upsert:
  "distinct (map key rows) \<Longrightarrow> distinct (map key (upsert key r rows))"
  by (auto simp: upsert_def distinct_map_filter)

lemma keys_unique_empty: "keys_unique empty_tables"
  by (simp add: keys_unique_def empty_tables_def)

lemma keys_unique_put:
  assumes "keys_unique t"
  shows "keys_unique (put_message m t)" "keys_unique (put_summary r t)"
    "keys_unique (put_participants p t)"
  using assms
  by (simp_all add: keys_unique_def put_message_def put_summary_def put_participants_def
      distinct_upsert)

lemma participants_canonical_empty: "participants_canonical empty_tables"
  by (simp add: participants_canonical_def empty_tables_def)

lemma participants_canonical_put:
  assumes "participants_canonical t"
  shows "participants_canonical (put_message m t)" "participants_canonical (put_summary r t)"
    "p_user1_id p \<le> p_user2_id p \<Longrightarrow> participants_canonical (put_participants p t)"
  using assms
  by (auto simp: participants_canonical_def list_all_iff participants_put_participants)

lemma fold_writes_invariants:
  assumes step: "\<And>w u. w \<in> set vs \<Longrightarrow> keys_unique u \<and> participants_canonical u
                   \<Longrightarrow> keys_unique (w u) \<and> participants_canonical (w u)"
    and "keys_unique t \<and> participants_canonical t"
  shows "keys_unique (fold (\<lambda>w. w) vs t) \<and> participants_canonical (fold (\<lambda>w. w) vs t)"
  using assms
proof (induction vs arbitrary: t)
  case Nil
  then show ?case by simp
next
  case (Cons v vs)
  have "keys_unique (v t) \<and> participants_canonical (v t)"
    using Cons.prems(1) [of v t] Cons.prems(2) by simp
  moreover have "\<And>w u. w \<in> set vs \<Longrightarrow> keys_unique u \<and> participants_canonical u
                   \<Longrightarrow> keys_unique (w u) \<and> participants_canonical (w u)"
    using Cons.prems(1) by simp
  ultimately have "keys_unique (fold (\<lambda>w. w) vs (v t))
                 \<and> participants_canonical (fold (\<lambda>w. w) vs (v t))"
    by (intro Cons.IH)
  then show ?case by simp
qed

lemma written_invariants:
  assumes step: "\<And>w u. w \<in> set ws \<Longrightarrow> keys_unique u \<and> participants_canonical u
                   \<Longrightarrow> keys_unique (w u) \<and> participants_canonical (w u)"
    and "keys_unique t \<and> participants_canonical t"
  shows "keys_unique (written ws k t) \<and> participants_canonical (written ws k t)"
  unfolding written_def
proof (rule fold_writes_invariants)
  fix w u
  assume w: "w \<in> set (take k ws)" and u: "keys_unique u \<and> participants_canonical u"
  from w have "w \<in> set ws" by (rule in_set_takeD)
  then show "keys_unique (w u) \<and> participants_canonical (w u)" using u by (rule step)
next
  show "keys_unique t \<and> participants_canonical t" by fact
qed

lemma invariants_create_message_writes:
  assumes "keys_unique t \<and> participants_canonical t"
  shows "keys_unique (written (create_message_writes sender_id receiver_id content cid mid ts) k t)
       \<and> participants_canonical
           (written (create_message_writes sender_id receiver_id content cid mid ts) k t)"
proof (rule written_invariants [OF _ assms])
  fix w u
  assume w: "w \<in> set (create_message_writes sender_id receiver_id content cid mid ts)"
    and u: "keys_unique u \<and> participants_canonical u"
  from w consider m where "w = put_message m" | r where "w = put_summary r"
    unfolding create_message_writes_def by auto
  then show "keys_unique (w u) \<and> participants_canonical (w u)"
    using u by cases (simp_all add: keys_unique_put participants_canonical_put)
qed

lemma invariants_create_conversation_writes:
  assumes "keys_unique t \<and> participants_canonical t"
  shows "keys_unique (written (create_conversation_writes a b now created_at) k t)
       \<and> participants_canonical (written (create_conversation_writes a b now created_at) k t)"
proof (rule written_invariants [OF _ assms])
  fix w u
  assume w: "w \<in> set (create_conversation_writes a b now created_at)"
    and u: "keys_unique u \<and> participants_canonical u"
  have le: "p_user1_id (new_participants_row a b now created_at)
              \<le> p_user2_id (new_participants_row a b now created_at)"
    by (simp add: new_participants_row_def)
  from w consider "w = put_participants (new_participants_row a b now created_at)"
    | r where "w = put_summary r"
    unfolding create_conversation_writes_def by auto
  then show "keys_unique (w u) \<and> participants_canonical (w u)"
    using u le by cases (simp_all add: keys_unique_put participants_canonical_put)
qed

section \<open>Resolving a pair of users\<close>

lemma advance_no_faults: "faults s = [] \<Longrightarrow> advance n s = s"
proof -
  assume f: "faults s = []"
  have "advance n s = s\<lparr>faults := faults s\<rparr>" by (simp add: advance_def f)
  then show ?thesis by simp
qed

lemma participants_partition_put_participants:
  "participants_partition c (put_participants p t) =
     (if c = p_conversation_id p then [p] else participants_partition c t)"
  by (auto simp: participants_partition_def put_participants_def upsert_def
      intro: filter_cong filter_False [THEN trans])

lemma participants_partition_put_summary [simp]:
  "participants_partition c (put_summary r t) = participants_partition c t"
  by (simp add: participants_partition_def)

lemma participants_partition_put_message [simp]:
  "participants_partition c (put_message r t) = participants_partition c t"
  by (simp add: participants_partition_def)

lemma matches_put_summary [simp]: "matches (put_summary r t) mn mx row = matches t mn mx row"
  by (simp add: matches_def)

lemma set_summaries_partition:
  "set (summaries_partition u t) = {r \<in> set (conversations_by_user t). s_user_id r = u}"
  by (auto simp: summaries_partition_def)

lemma written_create_conversation:
  "written (create_conversation_writes a b now created_at) 3 t =
     put_summary (summary_for (max a b) (min a b) (whole_seconds now) created_at None)
       (put_summary (summary_for (min a b) (max a b) (whole_seconds now) created_at None)
          (put_participants (new_participants_row a b now created_at) t))"
  by (simp add: written_def create_conversation_writes_def)

lemma matches_participants:
  "matches t mn mx row \<Longrightarrow>
   \<exists>p ps. participants_partition (s_conversation_id row) t = p # ps
       \<and> ((p_user1_id p = mn \<and> p_user2_id p = mx) \<or> (p_user1_id p = mx \<and> p_user2_id p = mn))"
  by (cases "participants_partition (s_conversation_id row) t") (simp_all add: matches_def)

lemma create_or_get_conversation_finds:
  assumes f: "faults s = []"
    and found: "List.find (matches (db s) (min a b) (max a b))
                  (summaries_partition (min a b) (db s)) = Some row"
  shows "\<exists>c p ps. create_or_get_conversation a b now created_at s = (Inr (Some c), s)
          \<and> c_id c = s_conversation_id row
          \<and> participants_partition (s_conversation_id row) (db s) = p # ps
          \<and> c_user1_id c = p_user1_id p \<and> c_user2_id c = p_user2_id p
          \<and> ((p_user1_id p = min a b \<and> p_user2_id p = max a b)
               \<or> (p_user1_id p = max a b \<and> p_user2_id p = min a b))"
proof -
  from found have m: "matches (db s) (min a b) (max a b) row"
    by (auto simp: find_Some_iff)
  from matches_participants [OF m] obtain p ps where
    p: "participants_partition (s_conversation_id row) (db s) = p # ps"
       "(p_user1_id p = min a b \<and> p_user2_id p = max a b)
         \<or> (p_user1_id p = max a b \<and> p_user2_id p = min a b)"
    by blast
  let ?c = "\<lparr>c_id = s_conversation_id row, c_user1_id = p_user1_id p, c_user2_id = p_user2_id p,
             c_last_message_at =
               (case messages_partition (s_conversation_id row) (db s) of
                  [] \<Rightarrow> p_created_at p | m # _ \<Rightarrow> m_message_timestamp m),
             c_last_message_content =
               (case messages_partition (s_conversation_id row) (db s) of
                  [] \<Rightarrow> None | m # _ \<Rightarrow> Some (m_content m))\<rparr>"
  have g: "get_conversation (s_conversation_id row) s = (Inr (Some ?c), s)"
    by (rule get_conversation_present [OF f p(1)])
  have loop: "find_conversation (summaries_partition (min a b) (db s)) (min a b) (max a b) s
                = (Inr (Returned (Some ?c)), s)"
    unfolding find_conversation_first_match [OF f] found using g by simp
  have call: "create_or_get_conversation a b now created_at s = (Inr (Some ?c), s)"
    unfolding create_or_get_conversation_def Let_def
    using execute_select_conversation_ids [OF f, of "min a b"] loop by simp
  show ?thesis
    apply (rule exI [of _ ?c])
    apply (rule exI [of _ p])
    apply (rule exI [of _ ps])
    using call p by simp
qed

lemma create_or_get_conversation_makes:
  assumes f: "faults s = []"
    and none: "List.find (matches (db s) (min a b) (max a b))
                  (summaries_partition (min a b) (db s)) = None"
  shows "create_or_get_conversation a b now created_at s =
     (Inr (Some \<lparr>c_id = whole_seconds now, c_user1_id = min a b, c_user2_id = max a b,
                 c_last_message_at = created_at, c_last_message_content = None\<rparr>),
      s\<lparr>db := written (create_conversation_writes a b now created_at) 3 (db s)\<rparr>)"
proof -
  have nomatch: "\<forall>row \<in> set (summaries_partition (min a b) (db s)).
                      \<not> matches (db s) (min a b) (max a b) row"
    using none by (simp add: find_None_iff)
  show ?thesis
    using create_or_get_conversation_creates [OF nomatch quiet_no_faults [OF f]]
    by (simp add: advance_no_faults [OF f])
qed

lemma created_is_found:
  fixes a b :: int and now created_at :: timestamp and t :: tables
  assumes none: "List.find (matches t (min a b) (max a b)) (summaries_partition (min a b) t) = None"
  defines "t1 \<equiv> written (create_conversation_writes a b now created_at) 3 t"
  shows "\<exists>row. List.find (matches t1 (min a b) (max a b)) (summaries_partition (min a b) t1)
                 = Some row
             \<and> s_conversation_id row = whole_seconds now"
    and "participants_partition (whole_seconds now) t1 = [new_participants_row a b now created_at]"
proof -
  let ?mn = "min a b" and ?mx = "max a b" and ?id = "whole_seconds now"
  let ?p = "new_participants_row a b now created_at"
  let ?r1 = "summary_for ?mn ?mx ?id created_at None"
  let ?r2 = "summary_for ?mx ?mn ?id created_at None"
  have t1: "t1 = put_summary ?r2 (put_summary ?r1 (put_participants ?p t))"
    by (simp add: t1_def written_create_conversation)
  have pid: "p_conversation_id ?p = ?id" by (simp add: new_participants_row_def)
  have part: "participants_partition c t1 = (if c = ?id then [?p] else participants_partition c t)" for c
    by (simp add: t1 participants_partition_put_participants pid)
  show "participants_partition ?id t1 = [?p]" by (simp add: part)
  have rows: "set (conversations_by_user t1) =
      {?r1, ?r2} \<union> {q \<in> set (conversations_by_user t).
                    summary_key q \<noteq> summary_key ?r1 \<and> summary_key q \<noteq> summary_key ?r2}"
    unfolding t1 using set_put_twice [OF summary_for_same_key] by simp
  have old: "\<not> matches t ?mn ?mx row" if "row \<in> set (summaries_partition ?mn t)" for row
    using none that by (simp add: find_None_iff)
  have m1: "matches t1 ?mn ?mx ?r1"
    by (simp add: matches_def part summary_for_def new_participants_row_def)
  have in1: "?r1 \<in> set (summaries_partition ?mn t1)"
    by (simp add: set_summaries_partition rows) (simp add: summary_for_def)
  have only: "s_conversation_id row = ?id"
    if r: "row \<in> set (summaries_partition ?mn t1)" and m: "matches t1 ?mn ?mx row" for row
  proof (rule ccontr)
    assume ne: "s_conversation_id row \<noteq> ?id"
    then have "row \<noteq> ?r1" "row \<noteq> ?r2" by (auto simp: summary_for_def)
    with r have "row \<in> set (summaries_partition ?mn t)"
      by (auto simp: set_summaries_partition rows)
    then have "\<not> matches t ?mn ?mx row" by (rule old)
    moreover have "matches t1 ?mn ?mx row = matches t ?mn ?mx row"
      using ne by (simp add: matches_def part)
    ultimately show False using m by simp
  qed
  from in1 m1 have "List.find (matches t1 ?mn ?mx) (summaries_partition ?mn t1) \<noteq> None"
    by (auto simp: find_None_iff)
  then obtain row where
    row: "List.find (matches t1 ?mn ?mx) (summaries_partition ?mn t1) = Some row"
    by blast
  then have "matches t1 ?mn ?mx row" "row \<in> set (summaries_partition ?mn t1)"
    by (auto simp: find_Some_iff)
  with only have "s_conversation_id row = ?id" by blast
  with row show "\<exists>row. List.find (matches t1 ?mn ?mx) (summaries_partition ?mn t1) = Some row
             \<and> s_conversation_id row = ?id"
    by blast
qed

lemma participants_canonical_created:
  "participants_canonical t \<Longrightarrow>
   participants_canonical (written (create_conversation_writes a b now created_at) 3 t)"
  by (auto simp: participants_canonical_def written_create_conversation list_all_iff
      participants_put_participants new_participants_row_def)

lemma create_or_get_conversation_twice:
  assumes f: "faults s = []"
    and same: "min a' b' = min a b" "max a' b' = max a b"
  shows "\<exists>c1 c2 s1 p ps.
            create_or_get_conversation a b now1 created1 s = (Inr (Some c1), s1)
          \<and> create_or_get_conversation a' b' now2 created2 s1 = (Inr (Some c2), s1)
          \<and> c_id c2 = c_id c1
          \<and> participants_partition (c_id c1) (db s1) = p # ps
          \<and> ((p_user1_id p = min a b \<and> p_user2_id p = max a b)
               \<or> (p_user1_id p = max a b \<and> p_user2_id p = min a b))
          \<and> (participants_canonical (db s) \<longrightarrow> participants_canonical (db s1))"
proof (cases "List.find (matches (db s) (min a b) (max a b)) (summaries_partition (min a b) (db s))")
  case (Some row)
  from create_or_get_conversation_finds [OF f Some, of now1 created1]
  obtain c1 p ps where 1:
    "create_or_get_conversation a b now1 created1 s = (Inr (Some c1), s)"
    "c_id c1 = s_conversation_id row"
    "participants_partition (s_conversation_id row) (db s) = p # ps"
    "(p_user1_id p = min a b \<and> p_user2_id p = max a b)
      \<or> (p_user1_id p = max a b \<and> p_user2_id p = min a b)"
    by blast
  have Some': "List.find (matches (db s) (min a' b') (max a' b'))
                 (summaries_partition (min a' b') (db s)) = Some row"
    using Some by (simp add: same)
  from create_or_get_conversation_finds [OF f Some', of now2 created2]
  obtain c2 where 2:
    "create_or_get_conversation a' b' now2 created2 s = (Inr (Some c2), s)"
    "c_id c2 = s_conversation_id row"
    by blast
  show ?thesis
    apply (rule exI [of _ c1])
    apply (rule exI [of _ c2])
    apply (rule exI [of _ s])
    apply (rule exI [of _ p])
    apply (rule exI [of _ ps])
    using 1 2 by simp
next
  case None
  let ?t1 = "written (create_conversation_writes a b now1 created1) 3 (db s)"
  let ?s1 = "s\<lparr>db := ?t1\<rparr>"
  let ?c1 = "\<lparr>c_id = whole_seconds now1, c_user1_id = min a b, c_user2_id = max a b,
                 c_last_message_at = created1, c_last_message_content = None\<rparr>"
  have 1: "create_or_get_conversation a b now1 created1 s = (Inr (Some ?c1), ?s1)"
    by (rule create_or_get_conversation_makes [OF f None])
  have f1: "faults ?s1 = []" using f by simp
  from created_is_found [OF None, of now1 created1]
  obtain row where row:
    "List.find (matches ?t1 (min a b) (max a b)) (summaries_partition (min a b) ?t1) = Some row"
    "s_conversation_id row = whole_seconds now1"
    and part: "participants_partition (whole_seconds now1) ?t1
                 = [new_participants_row a b now1 created1]"
    by blast
  have Some': "List.find (matches (db ?s1) (min a' b') (max a' b'))
                 (summaries_partition (min a' b') (db ?s1)) = Some row"
    using row(1) by (simp add: same)
  from create_or_get_conversation_finds [OF f1 Some', of now2 created2]
  obtain c2 where 2:
    "create_or_get_conversation a' b' now2 created2 ?s1 = (Inr (Some c2), ?s1)"
    "c_id c2 = s_conversation_id row"
    by blast
  show ?thesis
    apply (rule exI [of _ ?c1])
    apply (rule exI [of _ c2])
    apply (rule exI [of _ ?s1])
    apply (rule exI [of _ "new_participants_row a b now1 created1"])
    apply (rule exI [of _ "[]"])
    using 1 2 row(2) part
    by (simp add: participants_canonical_created) (simp add: new_participants_row_def)
qed


lemma participants_canonical_head:
  "participants_canonical t \<Longrightarrow> participants_partition c t = p # ps \<Longrightarrow>
   p_user1_id p \<le> p_user2_id p"
  using participants_partition_head [of c t p ps]
  by (simp add: participants_canonical_def list_all_iff)

lemma no_pair_no_match:
  assumes "\<forall>p \<in> set (conversation_participants t).
             \<not> ((p_user1_id p = mn \<and> p_user2_id p = mx) \<or> (p_user1_id p = mx \<and> p_user2_id p = mn))"
  shows "\<not> matches t mn mx row"
proof
  assume "matches t mn mx row"
  from matches_participants [OF this] obtain p ps where
    "participants_partition (s_conversation_id row) t = p # ps"
    "(p_user1_id p = mn \<and> p_user2_id p = mx) \<or> (p_user1_id p = mx \<and> p_user2_id p = mn)"
    by blast
  with participants_partition_head [of "s_conversation_id row" t p ps] assms
  show False by blast
qed

lemma create_or_get_conversation_returns_found:
  assumes f: "faults s = []"
    and found: "List.find (matches (db s) (min a b) (max a b))
                  (summaries_partition (min a b) (db s)) = Some row"
  shows "\<exists>c p ps. create_or_get_conversation a b now created_at s = (Inr (Some c), s)
          \<and> get_conversation (s_conversation_id row) s = (Inr (Some c), s)
          \<and> c_id c = s_conversation_id row
          \<and> participants_partition (s_conversation_id row) (db s) = p # ps
          \<and> c_user1_id c = p_user1_id p \<and> c_user2_id c = p_user2_id p
          \<and> ((p_user1_id p = min a b \<and> p_user2_id p = max a b)
               \<or> (p_user1_id p = max a b \<and> p_user2_id p = min a b))"
proof -
  from create_or_get_conversation_finds [OF f found, of now created_at]
  obtain c p ps where r:
    "create_or_get_conversation a b now created_at s = (Inr (Some c), s)"
    "c_id c = s_conversation_id row"
    "participants_partition (s_conversation_id row) (db s) = p # ps"
    "c_user1_id c = p_user1_id p" "c_user2_id c = p_user2_id p"
    "(p_user1_id p = min a b \<and> p_user2_id p = max a b)
       \<or> (p_user1_id p = max a b \<and> p_user2_id p = min a b)"
    by blast
  from get_conversation_present [OF f r(3)]
  obtain c' where g: "get_conversation (s_conversation_id row) s = (Inr (Some c'), s)"
    by blast
  have loop: "find_conversation (summaries_partition (min a b) (db s)) (min a b) (max a b) s
                = (Inr (Returned (Some c')), s)"
    unfolding find_conversation_first_match [OF f] found using g by simp
  have "create_or_get_conversation a b now created_at s = (Inr (Some c'), s)"
    unfolding create_or_get_conversation_def Let_def
    using execute_select_conversation_ids [OF f, of "min a b"] loop by simp
  with r(1) have "c' = c" by simp
  with g r show ?thesis by blast
qed

lemma create_or_get_conversation_again:
  assumes f: "faults s = []"
  shows "\<exists>c1 c2 s1 row p ps.
            create_or_get_conversation a b now1 created1 s = (Inr (Some c1), s1)
          \<and> create_or_get_conversation a b now2 created2 s1 = (Inr (Some c2), s1)
          \<and> c_id c2 = c_id c1
          \<and> List.find (matches (db s1) (min a b) (max a b))
                (summaries_partition (min a b) (db s1)) = Some row
          \<and> s_conversation_id row = c_id c1
          \<and> get_conversation (c_id c1) s1 = (Inr (Some c2), s1)
          \<and> participants_partition (c_id c1) (db s1) = p # ps
          \<and> ((p_user1_id p = min a b \<and> p_user2_id p = max a b)
               \<or> (p_user1_id p = max a b \<and> p_user2_id p = min a b))
          \<and> c_user1_id c1 = p_user1_id p \<and> c_user2_id c1 = p_user2_id p
          \<and> c_user1_id c2 = p_user1_id p \<and> c_user2_id c2 = p_user2_id p"
proof (cases "List.find (matches (db s) (min a b) (max a b)) (summaries_partition (min a b) (db s))")
  case (Some row)
  from create_or_get_conversation_returns_found [OF f Some, of now1 created1]
  obtain c1 p ps where 1:
    "create_or_get_conversation a b now1 created1 s = (Inr (Some c1), s)"
    "get_conversation (s_conversation_id row) s = (Inr (Some c1), s)"
    "c_id c1 = s_conversation_id row"
    "participants_partition (s_conversation_id row) (db s) = p # ps"
    "c_user1_id c1 = p_user1_id p" "c_user2_id c1 = p_user2_id p"
    "(p_user1_id p = min a b \<and> p_user2_id p = max a b)
      \<or> (p_user1_id p = max a b \<and> p_user2_id p = min a b)"
    by blast
  from create_or_get_conversation_returns_found [OF f Some, of now2 created2]
  obtain c2 where 2:
    "create_or_get_conversation a b now2 created2 s = (Inr (Some c2), s)"
    "get_conversation (s_conversation_id row) s = (Inr (Some c2), s)"
    by blast
  from 1(2) 2(2) have same: "c2 = c1" by simp
  show ?thesis
    apply (rule exI [of _ c1])
    apply (rule exI [of _ c2])
    apply (rule exI [of _ s])
    apply (rule exI [of _ row])
    apply (rule exI [of _ p])
    apply (rule exI [of _ ps])
    using 1 2 Some same by simp
next
  case None
  let ?t1 = "written (create_conversation_writes a b now1 created1) 3 (db s)"
  let ?s1 = "s\<lparr>db := ?t1\<rparr>"
  let ?c1 = "\<lparr>c_id = whole_seconds now1, c_user1_id = min a b, c_user2_id = max a b,
                 c_last_message_at = created1, c_last_message_content = None\<rparr>"
  let ?p = "new_participants_row a b now1 created1"
  have 1: "create_or_get_conversation a b now1 created1 s = (Inr (Some ?c1), ?s1)"
    by (rule create_or_get_conversation_makes [OF f None])
  have f1: "faults ?s1 = []" using f by simp
  from created_is_found [OF None, of now1 created1]
  obtain row where row:
    "List.find (matches ?t1 (min a b) (max a b)) (summaries_partition (min a b) ?t1) = Some row"
    "s_conversation_id row = whole_seconds now1"
    and part: "participants_partition (whole_seconds now1) ?t1 = [?p]"
    by blast
  have Some': "List.find (matches (db ?s1) (min a b) (max a b))
                 (summaries_partition (min a b) (db ?s1)) = Some row"
    using row(1) by simp
  from create_or_get_conversation_returns_found [OF f1 Some', of now2 created2]
  obtain c2 q qs where 2:
    "create_or_get_conversation a b now2 created2 ?s1 = (Inr (Some c2), ?s1)"
    "get_conversation (s_conversation_id row) ?s1 = (Inr (Some c2), ?s1)"
    "c_id c2 = s_conversation_id row"
    "participants_partition (s_conversation_id row) (db ?s1) = q # qs"
    "c_user1_id c2 = p_user1_id q" "c_user2_id c2 = p_user2_id q"
    by blast
  from 2(4) part row(2) have q: "q = ?p" by simp
  have pp: "p_user1_id ?p = min a b" "p_user2_id ?p = max a b"
    by (simp_all add: new_participants_row_def)
  show ?thesis
    apply (rule exI [of _ ?c1])
    apply (rule exI [of _ c2])
    apply (rule exI [of _ ?s1])
    apply (rule exI [of _ row])
    apply (rule exI [of _ ?p])
    apply (rule exI [of _ "[]"])
    using 1 2 row(2) part Some' q pp by simp
qed

section \<open>The operations keep the keys unique and the pairs canonical\<close>

lemma create_message_preserves:
  assumes "quiet 3 s" "keys_unique (db s) \<and> participants_canonical (db s)"
  shows "keys_unique (db (snd (create_message sender_id receiver_id content cid mid ts s)))
       \<and> participants_canonical
           (db (snd (create_message sender_id receiver_id content cid mid ts s)))"
proof -
  have "db (snd (create_message sender_id receiver_id content cid mid ts s)) =
        written (create_message_writes sender_id receiver_id content cid mid ts) 3 (db s)"
    unfolding create_message_quiet [OF assms(1)]
    by (simp add: written_def create_message_writes_def)
  then show ?thesis
    using invariants_create_message_writes [OF assms(2)] by simp
qed

lemma create_or_get_conversation_preserves:
  assumes f: "faults s = []" and inv: "keys_unique (db s) \<and> participants_canonical (db s)"
  shows "keys_unique (db (snd (create_or_get_conversation a b now created_at s)))
       \<and> participants_canonical (db (snd (create_or_get_conversation a b now created_at s)))"
proof (cases "List.find (matches (db s) (min a b) (max a b)) (summaries_partition (min a b) (db s))")
  case None
  show ?thesis
    unfolding create_or_get_conversation_makes [OF f None]
    using invariants_create_conversation_writes [OF inv] by simp
next
  case (Some row)
  from create_or_get_conversation_finds [OF f Some, of now created_at]
  obtain c where "create_or_get_conversation a b now created_at s = (Inr (Some c), s)"
    by blast
  then show ?thesis using inv by simp
qed

section \<open>The same conversation for a pair in either order\<close>

text \<open>
  Claim C1. Let \<open>a\<close> and \<open>b\<close> be distinct user ids, the session raise nothing, and every
  stored participants row have \<open>user1_id \<le> user2_id\<close> (the order in which this
  repository writes them). Then \<^verbatim>\<open>create_or_get_conversation(a, b)\<close> followed by
  \<^verbatim>\<open>create_or_get_conversation(b, a)\<close> both return a conversation, with the same id; the
  second call leaves the store as the first left it; and the participants row the store
  returns for that id holds the smaller id as \<open>user1_id\<close> and the larger as
  \<open>user2_id\<close>, so \<open>user1_id < user2_id\<close>.
\<close>

theorem create_or_get_conversation_symmetric:
  assumes "a \<noteq> b" "faults s = []" "participants_canonical (db s)"
  shows "\<exists>c1 c2 s1 p ps.
            create_or_get_conversation a b now1 created1 s = (Inr (Some c1), s1)
          \<and> create_or_get_conversation b a now2 created2 s1 = (Inr (Some c2), s1)
          \<and> c_id c2 = c_id c1
          \<and> participants_partition (c_id c1) (db s1) = p # ps
          \<and> p_user1_id p = min a b \<and> p_user2_id p = max a b
          \<and> p_user1_id p < p_user2_id p"
proof -
  have same: "min b a = min a b" "max b a = max a b" by (simp_all add: min.commute max.commute)
  from create_or_get_conversation_twice [OF assms(2) same, of now1 created1 now2 created2]
  obtain c1 c2 s1 p ps where r:
    "create_or_get_conversation a b now1 created1 s = (Inr (Some c1), s1)"
    "create_or_get_conversation b a now2 created2 s1 = (Inr (Some c2), s1)"
    "c_id c2 = c_id c1"
    "participants_partition (c_id c1) (db s1) = p # ps"
    "(p_user1_id p = min a b \<and> p_user2_id p = max a b)
      \<or> (p_user1_id p = max a b \<and> p_user2_id p = min a b)"
    "participants_canonical (db s) \<longrightarrow> participants_canonical (db s1)"
    by blast
  from r(6) assms(3) have "participants_canonical (db s1)" by simp
  then have le: "p_user1_id p \<le> p_user2_id p"
    using r(4) by (rule participants_canonical_head)
  have lt: "min a b < max a b" using assms(1) by (simp add: min_def max_def)
  from r(5) le lt have pair: "p_user1_id p = min a b \<and> p_user2_id p = max a b" by linarith
  with lt have "p_user1_id p < p_user2_id p" by simp
  with r(1-4) pair show ?thesis by blast
qed

theorem create_or_get_conversation_symmetric_witness:
  "(9::int) \<noteq> 5 \<and> faults demo_store = [] \<and> participants_canonical (db demo_store)
   \<and> (\<exists>c1 c2 s1 p ps.
          create_or_get_conversation 9 5 200000000 200000001 demo_store = (Inr (Some c1), s1)
        \<and> create_or_get_conversation 5 9 300000000 300000001 s1 = (Inr (Some c2), s1)
        \<and> c_id c2 = c_id c1
        \<and> participants_partition (c_id c1) (db s1) = p # ps
        \<and> p_user1_id p = 5 \<and> p_user2_id p = 9
        \<and> p_user1_id p < p_user2_id p)"
proof -
  have ne: "(9::int) \<noteq> 5" by simp
  from create_or_get_conversation_symmetric [OF ne demo_faults demo_canonical,
      of 200000000 200000001 300000000 300000001]
  show ?thesis using demo_faults demo_canonical by simp
qed

section \<open>Reading the messages of a conversation\<close>





section \<open>Creating a conversation\<close>

text \<open>
  Claim C3, as amended. When the session raises nothing and no row of the smaller
  user's partition leads to a conversation of the pair,
  \<^verbatim>\<open>create_or_get_conversation\<close> takes the whole seconds of the current time as the new
  conversation id, writes one \<^verbatim>\<open>conversation_participants\<close> row with the pair in
  canonical order (replacing only a row with that id), and writes two
  \<^verbatim>\<open>conversations_by_user\<close> rows, one per participant, whose
  \<^verbatim>\<open>last_message_content\<close> is null and whose \<^verbatim>\<open>last_message_timestamp\<close> is
  \<^verbatim>\<open>created_at\<close>; it returns the new conversation with \<^verbatim>\<open>last_message_at = created_at\<close>
  and a null content. The messages table is untouched. When the two ids differ the two
  summary rows are two rows of the table.
\<close>

theorem create_or_get_conversation_creates_rows:
  assumes "faults s = []"
    and "\<forall>row \<in> set (summaries_partition (min a b) (db s)).
           \<not> matches (db s) (min a b) (max a b) row"
  shows "\<exists>s1.
            create_or_get_conversation a b now created_at s =
              (Inr (Some \<lparr>c_id = whole_seconds now, c_user1_id = min a b, c_user2_id = max a b,
                          c_last_message_at = created_at, c_last_message_content = None\<rparr>), s1)
          \<and> conversation_participants (db s1) =
              \<lparr>p_conversation_id = whole_seconds now, p_user1_id = min a b,
               p_user2_id = max a b, p_created_at = created_at\<rparr>
              # filter (\<lambda>q. p_conversation_id q \<noteq> whole_seconds now)
                  (conversation_participants (db s))
          \<and> set (conversations_by_user (db s1)) =
              {\<lparr>s_user_id = min a b, s_last_message_timestamp = created_at,
                s_conversation_id = whole_seconds now, s_other_user_id = max a b,
                s_last_message_content = None\<rparr>,
               \<lparr>s_user_id = max a b, s_last_message_timestamp = created_at,
                s_conversation_id = whole_seconds now, s_other_user_id = min a b,
                s_last_message_content = None\<rparr>}
              \<union> {q \<in> set (conversations_by_user (db s)).
                   summary_key q \<noteq> (min a b, created_at, whole_seconds now)
                   \<and> summary_key q \<noteq> (max a b, created_at, whole_seconds now)}
          \<and> (a \<noteq> b \<longrightarrow>
              conversations_by_user (db s1) =
                \<lparr>s_user_id = max a b, s_last_message_timestamp = created_at,
                 s_conversation_id = whole_seconds now, s_other_user_id = min a b,
                 s_last_message_content = None\<rparr>
                # \<lparr>s_user_id = min a b, s_last_message_timestamp = created_at,
                   s_conversation_id = whole_seconds now, s_other_user_id = max a b,
                   s_last_message_content = None\<rparr>
                # filter (\<lambda>q. summary_key q \<noteq> (min a b, created_at, whole_seconds now)
                              \<and> summary_key q \<noteq> (max a b, created_at, whole_seconds now))
                    (conversations_by_user (db s)))
          \<and> messages_by_conversation (db s1) = messages_by_conversation (db s)"
proof -
  let ?id = "whole_seconds now"
  let ?p = "new_participants_row a b now created_at"
  let ?r1 = "summary_for (min a b) (max a b) ?id created_at None"
  let ?r2 = "summary_for (max a b) (min a b) ?id created_at None"
  let ?t1 = "written (create_conversation_writes a b now created_at) 3 (db s)"
  let ?s1 = "s\<lparr>db := ?t1\<rparr>"
  have none: "List.find (matches (db s) (min a b) (max a b))
                     (summaries_partition (min a b) (db s)) = None"
    using assms(2) by (simp add: find_None_iff)
  have call: "create_or_get_conversation a b now created_at s =
              (Inr (Some \<lparr>c_id = ?id, c_user1_id = min a b, c_user2_id = max a b,
                          c_last_message_at = created_at, c_last_message_content = None\<rparr>), ?s1)"
    by (rule create_or_get_conversation_makes [OF assms(1) none])
  have t1: "?t1 = put_summary ?r2 (put_summary ?r1 (put_participants ?p (db s)))"
    by (rule written_create_conversation)
  have parts: "conversation_participants ?t1 =
      ?p # filter (\<lambda>q. p_conversation_id q \<noteq> ?id) (conversation_participants (db s))"
    unfolding t1 by (simp add: participants_put_participants) (simp add: new_participants_row_def)
  have rows: "set (conversations_by_user ?t1) =
      {?r1, ?r2} \<union> {q \<in> set (conversations_by_user (db s)).
                    summary_key q \<noteq> (min a b, created_at, ?id)
                    \<and> summary_key q \<noteq> (max a b, created_at, ?id)}"
    unfolding t1 by (simp add: set_put_twice [OF summary_for_same_key] summary_key_for)
  have two: "conversations_by_user ?t1 =
      ?r2 # ?r1 # filter (\<lambda>q. summary_key q \<noteq> (min a b, created_at, ?id)
                              \<and> summary_key q \<noteq> (max a b, created_at, ?id))
                    (conversations_by_user (db s))" if "a \<noteq> b"
  proof -
    from that have "min a b \<noteq> max a b" by (simp add: min_def max_def)
    then have "summary_key ?r1 \<noteq> summary_key ?r2" by (simp add: summary_key_for)
    from put_twice_distinct [OF this] show ?thesis
      unfolding t1 by (simp add: summary_key_for)
  qed
  have msgs: "messages_by_conversation ?t1 = messages_by_conversation (db s)"
    unfolding t1 by simp
  show ?thesis
    apply (rule exI [of _ ?s1])
    apply (intro conjI impI)
    subgoal by (rule call)
    subgoal using parts by (simp add: new_participants_row_def)
    subgoal using rows by (simp add: summary_for_def)
    subgoal using two by (simp add: summary_for_def)
    subgoal using msgs by simp
    done
qed

theorem create_or_get_conversation_creates_rows_witness:
  "faults demo_store = []
   \<and> find (matches (db demo_store) (min 9 7) (max 9 7))
        (summaries_partition (min 9 7) (db demo_store)) = None
   \<and> (\<exists>s1. create_or_get_conversation 9 7 200000000 200000001 demo_store =
              (Inr (Some \<lparr>c_id = 200, c_user1_id = 7, c_user2_id = 9,
                          c_last_message_at = 200000001, c_last_message_content = None\<rparr>), s1)
           \<and> length (conversation_participants (db s1)) = 3
           \<and> length (conversations_by_user (db s1)) = 11
           \<and> take 2 (conversations_by_user (db s1)) =
               [\<lparr>s_user_id = 9, s_last_message_timestamp = 200000001,
                 s_conversation_id = 200, s_other_user_id = 7,
                 s_last_message_content = None\<rparr>,
                \<lparr>s_user_id = 7, s_last_message_timestamp = 200000001,
                 s_conversation_id = 200, s_other_user_id = 9,
                 s_last_message_content = None\<rparr>])"
proof -
  have w: "whole_seconds 200000000 = 200" by (simp add: whole_seconds_def)
  have ne: "(9::int) \<noteq> 7" by simp
  from create_or_get_conversation_creates_rows [OF demo_faults demo_no_match_7_9,
      of 200000000 200000001] ne
  obtain s1 where r:
    "create_or_get_conversation 9 7 200000000 200000001 demo_store =
              (Inr (Some \<lparr>c_id = 200, c_user1_id = 7, c_user2_id = 9,
                          c_last_message_at = 200000001, c_last_message_content = None\<rparr>), s1)"
    "conversation_participants (db s1) =
              \<lparr>p_conversation_id = 200, p_user1_id = 7,
               p_user2_id = 9, p_created_at = 200000001\<rparr>
              # filter (\<lambda>q. p_conversation_id q \<noteq> 200)
                  (conversation_participants (db demo_store))"
    "conversations_by_user (db s1) =
                \<lparr>s_user_id = 9, s_last_message_timestamp = 200000001,
                 s_conversation_id = 200, s_other_user_id = 7,
                 s_last_message_content = None\<rparr>
                # \<lparr>s_user_id = 7, s_last_message_timestamp = 200000001,
                   s_conversation_id = 200, s_other_user_id = 9,
                   s_last_message_content = None\<rparr>
                # filter (\<lambda>q. summary_key q \<noteq> (7, 200000001, 200)
                              \<and> summary_key q \<noteq> (9, 200000001, 200))
                    (conversations_by_user (db demo_store))"
    unfolding w by auto
  have a: "length (conversation_participants (db s1)) = 3"
    unfolding r(2) by (simp add: demo_db demo_tables_def)
  have b: "length (conversations_by_user (db s1)) = 11"
    unfolding r(3) by (simp add: demo_db demo_tables_def summary_key_def)
  have c: "take 2 (conversations_by_user (db s1)) =
               [\<lparr>s_user_id = 9, s_last_message_timestamp = 200000001,
                 s_conversation_id = 200, s_other_user_id = 7,
                 s_last_message_content = None\<rparr>,
                \<lparr>s_user_id = 7, s_last_message_timestamp = 200000001,
                 s_conversation_id = 200, s_other_user_id = 9,
                 s_last_message_content = None\<rparr>]"
    unfolding r(3) by simp
  have n: "find (matches (db demo_store) (min 9 7) (max 9 7))
        (summaries_partition (min 9 7) (db demo_store)) = None"
    using demo_no_match_7_9 by (simp add: find_None_iff)
  from demo_faults n r(1) a b c show ?thesis by blast
qed

text \<open>
  Claim C3 as it was stated has both \<^verbatim>\<open>last_message\<close> fields of the two summary rows
  null. Creating the conversation of users 5 and 9 in the empty store writes two summary
  rows whose \<^verbatim>\<open>last_message_timestamp\<close> is the creation time, not null: the column is a
  clustering column of the table and the code binds \<^verbatim>\<open>created_at\<close> to it.
\<close>

theorem create_conversation_last_message_fields_counterexample:
  "fst (create_or_get_conversation 5 9 100000000 100000007 empty_store) =
     Inr (Some \<lparr>c_id = 100, c_user1_id = 5, c_user2_id = 9,
                c_last_message_at = 100000007, c_last_message_content = None\<rparr>)
   \<and> map last_message_fields
        (conversations_by_user
           (db (snd (create_or_get_conversation 5 9 100000000 100000007 empty_store)))) =
       [[Timestamp_value 100000007, Null], [Timestamp_value 100000007, Null]]
   \<and> \<not> list_all last_message_fields_null
        (conversations_by_user
           (db (snd (create_or_get_conversation 5 9 100000000 100000007 empty_store))))"
proof -
  have f: "faults empty_store = []" by (simp add: empty_store_def)
  have e: "summaries_partition (min 5 9) (db empty_store) = []"
    by (simp add: summaries_partition_def empty_store_def empty_tables_def)
  have none: "List.find (matches (db empty_store) (min 5 9) (max 5 9))
                (summaries_partition (min 5 9) (db empty_store)) = None"
    unfolding e by simp
  have w: "whole_seconds 100000000 = 100" by (simp add: whole_seconds_def)
  note call = create_or_get_conversation_makes [OF f none, of 100000000 100000007]
  have rows: "conversations_by_user
      (written (create_conversation_writes 5 9 100000000 100000007) 3 (db empty_store)) =
      [summary_for 9 5 100 100000007 None, summary_for 5 9 100 100000007 None]"
    by (simp add: written_create_conversation w put_summary_def put_participants_def upsert_def
        empty_store_def empty_tables_def summary_key_def summary_for_def)
  show ?thesis
    unfolding call
    by (simp add: rows w last_message_fields_def last_message_fields_null_def summary_for_def)
qed

section \<open>Reading the messages before a time\<close>

lemma milliseconds_mono: "a \<le> b \<Longrightarrow> milliseconds a \<le> milliseconds b"
proof -
  assume ab: "a \<le> b"
  consider "0 \<le> a" | "a < 0" "0 \<le> b" | "a < 0" "b < 0" by linarith
  then show ?thesis
  proof cases
    case 1
    with ab have "0 \<le> b" by simp
    with 1 ab show ?thesis by (simp add: milliseconds_def zdiv_mono1)
  next
    case 2
    have "0 \<le> (- a) div 1000" using 2(1) by (simp add: pos_imp_zdiv_nonneg_iff)
    moreover have "0 \<le> b div 1000" using 2(2) by (simp add: pos_imp_zdiv_nonneg_iff)
    ultimately show ?thesis using 2 by (simp add: milliseconds_def)
  next
    case 3
    have "(- b) div 1000 \<le> (- a) div 1000" using ab by (intro zdiv_mono1) simp_all
    with 3 show ?thesis by (simp add: milliseconds_def)
  qed
qed

lemma stored_before_less: "stored_before before r \<Longrightarrow> m_message_timestamp r < before"
  unfolding stored_before_def using milliseconds_mono [of before "m_message_timestamp r"]
  by linarith

lemma get_messages_before_timestamp_eq:
  assumes "faults s = []" "0 < page * limit"
  shows "get_messages_before_timestamp cid before page limit s =
     (Inr \<lparr>pg_total = int (length (filter (stored_before before)
                                    (messages_partition cid (db s)))),
           pg_page = page, pg_limit = limit,
           pg_data = map message_of_row
                       (py_slice (take (nat (page * limit))
                                    (filter (stored_before before)
                                       (messages_partition cid (db s))))
                          ((page - 1) * limit) ((page - 1) * limit + limit))\<rparr>, s)"
  using assms
  by (simp add: get_messages_before_timestamp_def Let_def execute_select_messages_before
      execute_count_messages_before py_slice_map)

lemma get_messages_before_timestamp_rejected:
  assumes "faults s = []" "page * limit \<le> 0"
  shows "\<exists>e. get_messages_before_timestamp cid before page limit s = (Inl e, s)"
  using assms
  by (simp add: get_messages_before_timestamp_def Let_def execute_def run_def
      select_messages_before_def limited_def limit_rows_def)

lemma length_filter_partition:
  "length (filter P (messages_partition cid t)) =
   length (filter (\<lambda>m. m_conversation_id m = cid \<and> P m) (messages_by_conversation t))"
proof -
  have "filter P (messages_partition cid t) =
        sort_key message_clustering
          (filter (\<lambda>m. m_conversation_id m = cid \<and> P m) (messages_by_conversation t))"
    by (simp add: messages_partition_def filter_sort conj_commute)
  then show ?thesis by simp
qed

lemma counted_rows_are_before:
  "length (filter (\<lambda>m. m_conversation_id m = cid \<and> stored_before before m)
             (messages_by_conversation t)) \<le> rows_before cid before t"
proof -
  have "filter (\<lambda>m. m_conversation_id m = cid \<and> stored_before before m)
             (messages_by_conversation t)
        = filter (stored_before before)
            (filter (\<lambda>m. m_conversation_id m = cid \<and> m_message_timestamp m < before)
               (messages_by_conversation t))"
    by (auto simp: stored_before_less intro: filter_cong)
  then show ?thesis
    unfolding rows_before_def by (metis length_filter_le)
qed

text \<open>
  Claim C4, as amended. When the session raises nothing and \<open>page * limit\<close> is
  positive, \<^verbatim>\<open>get_messages_before_timestamp\<close> returns only messages of the conversation
  whose timestamp is strictly less than \<open>before_timestamp\<close> (the page window of the
  first \<open>page * limit\<close> rows, in clustering order, that the store places before it),
  and its total is the count query's answer whatever \<open>page * limit\<close> is: the number of
  all rows of the conversation whose time is before \<open>before_timestamp\<close> when both are
  taken in whole milliseconds, as the store compares them. That number is at most the
  number of rows strictly before \<open>before_timestamp\<close>. When \<open>page * limit\<close> is not
  positive the store rejects the query and the error reaches the caller.
\<close>

theorem get_messages_before_timestamp_filter_and_total:
  assumes "faults s = []"
  shows "(page * limit \<le> 0 \<longrightarrow>
            (\<exists>e. get_messages_before_timestamp cid before page limit s = (Inl e, s)))
       \<and> (0 < page * limit \<longrightarrow>
           (\<exists>r. get_messages_before_timestamp cid before page limit s = (Inr r, s)
              \<and> (\<forall>m \<in> set (pg_data r). msg_created_at m < before)
              \<and> (\<forall>m \<in> set (pg_data r).
                    milliseconds (msg_created_at m) < milliseconds before)
              \<and> (\<forall>m \<in> set (pg_data r). msg_conversation_id m = cid)
              \<and> pg_total r =
                  int (length (filter (\<lambda>m. m_conversation_id m = cid
                                          \<and> milliseconds (m_message_timestamp m)
                                              < milliseconds before)
                                 (messages_by_conversation (db s))))
              \<and> pg_total r \<le> int (rows_before cid before (db s))
              \<and> pg_data r = map message_of_row
                   (page_window
                      (take (nat (page * limit))
                         (filter (\<lambda>m. milliseconds (m_message_timestamp m)
                                         < milliseconds before)
                            (messages_partition cid (db s))))
                      page limit)))"
proof (intro conjI impI)
  assume "page * limit \<le> 0"
  then show "\<exists>e. get_messages_before_timestamp cid before page limit s = (Inl e, s)"
    by (rule get_messages_before_timestamp_rejected [OF assms])
next
  assume pos: "0 < page * limit"
  have sb: "stored_before before
              = (\<lambda>m. milliseconds (m_message_timestamp m) < milliseconds before)"
    by (rule ext) (simp add: stored_before_def)
  let ?B = "filter (stored_before before) (messages_partition cid (db s))"
  let ?F = "take (nat (page * limit)) ?B"
  let ?D = "py_slice ?F ((page - 1) * limit) ((page - 1) * limit + limit)"
  let ?r = "\<lparr>pg_total = int (length ?B), pg_page = page, pg_limit = limit,
             pg_data = map message_of_row ?D\<rparr>"
  have eq: "get_messages_before_timestamp cid before page limit s = (Inr ?r, s)"
    by (rule get_messages_before_timestamp_eq [OF assms pos])
  have win: "?D = page_window ?F page limit"
    using pos window_start_nonneg [OF pos] by (intro py_slice_window) simp_all
  have sub: "set ?D \<subseteq> set ?B"
    using set_py_slice [of ?F] set_take_subset [of "nat (page * limit)" ?B] by blast
  have ms: "\<forall>m \<in> set (map message_of_row ?D).
              milliseconds (msg_created_at m) < milliseconds before"
    using sub by (auto simp: message_of_row_def stored_before_def)
  have old: "\<forall>m \<in> set (map message_of_row ?D). msg_created_at m < before"
    using sub stored_before_less by (auto simp: message_of_row_def)
  have conv: "\<forall>m \<in> set (map message_of_row ?D). msg_conversation_id m = cid"
    using sub by (auto simp: message_of_row_def set_messages_partition)
  have tot: "int (length ?B) =
      int (length (filter (\<lambda>m. m_conversation_id m = cid \<and> stored_before before m)
                                 (messages_by_conversation (db s))))"
    by (simp only: length_filter_partition)
  have cap: "int (length ?B) \<le> int (rows_before cid before (db s))"
    unfolding tot using counted_rows_are_before [of cid before "db s"] by simp
  show "\<exists>r. get_messages_before_timestamp cid before page limit s = (Inr r, s)
              \<and> (\<forall>m \<in> set (pg_data r). msg_created_at m < before)
              \<and> (\<forall>m \<in> set (pg_data r).
                    milliseconds (msg_created_at m) < milliseconds before)
              \<and> (\<forall>m \<in> set (pg_data r). msg_conversation_id m = cid)
              \<and> pg_total r =
                  int (length (filter (\<lambda>m. m_conversation_id m = cid
                                          \<and> milliseconds (m_message_timestamp m)
                                              < milliseconds before)
                                 (messages_by_conversation (db s))))
              \<and> pg_total r \<le> int (rows_before cid before (db s))
              \<and> pg_data r = map message_of_row
                   (page_window
                      (take (nat (page * limit))
                         (filter (\<lambda>m. milliseconds (m_message_timestamp m)
                                         < milliseconds before)
                            (messages_partition cid (db s))))
                      page limit)"
    apply (rule exI [of _ ?r])
    apply (intro conjI)
    subgoal by (rule eq)
    subgoal using old by simp
    subgoal using ms by simp
    subgoal using conv by simp
    subgoal using tot by (simp add: stored_before_def)
    subgoal using cap by simp
    subgoal using win by (simp add: sb)
    done
qed

theorem get_messages_before_timestamp_filter_and_total_witness:
  "faults demo_store = [] \<and> (0::int) < 1 * 1
   \<and> (\<exists>r. get_messages_before_timestamp 100 25 1 1 demo_store = (Inr r, demo_store)
          \<and> pg_total r = 0 \<and> pg_data r = [])
   \<and> (\<exists>r. get_messages_before_timestamp 100 5000 1 1 demo_store = (Inr r, demo_store)
          \<and> pg_total r = 3 \<and> map msg_content (pg_data r) = [''yo''])
   \<and> (\<exists>e. get_messages_before_timestamp 100 5000 (-1) 1 demo_store = (Inl e, demo_store))"
proof -
  have f: "faults demo_store = []" by (simp add: demo_store_def)
  have pos: "(0::int) < 1 * 1" by simp
  have n25: "length (filter (\<lambda>m. m_conversation_id m = 100
                  \<and> milliseconds (m_message_timestamp m) < milliseconds 25)
                (messages_by_conversation (db demo_store))) = 0"
    by (simp add: demo_store_def demo_tables_def milliseconds_def)
  have n5000: "length (filter (\<lambda>m. m_conversation_id m = 100
                  \<and> milliseconds (m_message_timestamp m) < milliseconds 5000)
                (messages_by_conversation (db demo_store))) = 3"
    by (simp add: demo_store_def demo_tables_def milliseconds_def)
  from get_messages_before_timestamp_filter_and_total [OF f, of 1 1 100 25] pos
  obtain r where r: "get_messages_before_timestamp 100 25 1 1 demo_store = (Inr r, demo_store)"
      "pg_total r = int (length (filter (\<lambda>m. m_conversation_id m = 100
                  \<and> milliseconds (m_message_timestamp m) < milliseconds 25)
                (messages_by_conversation (db demo_store))))"
      "pg_data r = map message_of_row
                   (page_window
                      (take (nat (1 * 1))
                         (filter (\<lambda>m. milliseconds (m_message_timestamp m) < milliseconds 25)
                            (messages_partition 100 (db demo_store))))
                      1 1)"
    by blast
  have p25: "filter (\<lambda>m. milliseconds (m_message_timestamp m) < milliseconds 25)
               (messages_partition 100 (db demo_store)) = []"
    by (simp add: demo_messages_100 milliseconds_def)
  have a: "\<exists>r. get_messages_before_timestamp 100 25 1 1 demo_store = (Inr r, demo_store)
          \<and> pg_total r = 0 \<and> pg_data r = []"
    using r unfolding n25 p25 by (simp add: page_window_def)
  from get_messages_before_timestamp_filter_and_total [OF f, of 1 1 100 5000] pos
  obtain q where q: "get_messages_before_timestamp 100 5000 1 1 demo_store = (Inr q, demo_store)"
      "pg_total q = int (length (filter (\<lambda>m. m_conversation_id m = 100
                  \<and> milliseconds (m_message_timestamp m) < milliseconds 5000)
                (messages_by_conversation (db demo_store))))"
      "pg_data q = map message_of_row
                   (page_window
                      (take (nat (1 * 1))
                         (filter (\<lambda>m. milliseconds (m_message_timestamp m) < milliseconds 5000)
                            (messages_partition 100 (db demo_store))))
                      1 1)"
    by blast
  have p5000: "filter (\<lambda>m. milliseconds (m_message_timestamp m) < milliseconds 5000)
               (messages_partition 100 (db demo_store)) = messages_partition 100 (db demo_store)"
    by (simp add: demo_messages_100 milliseconds_def)
  have b: "\<exists>r. get_messages_before_timestamp 100 5000 1 1 demo_store = (Inr r, demo_store)
          \<and> pg_total r = 3 \<and> map msg_content (pg_data r) = [''yo'']"
    using q unfolding n5000 p5000
    by (simp add: demo_messages_100 page_window_def message_of_row_def)
  have c: "\<exists>e. get_messages_before_timestamp 100 5000 (-1) 1 demo_store = (Inl e, demo_store)"
    using get_messages_before_timestamp_filter_and_total [OF f, of "-1" 1 100 5000] by simp
  from f a b c show ?thesis by simp
qed

text \<open>
  Claim C4 as it was stated has the total equal to the number of all rows of the
  partition with a timestamp strictly less than \<open>before_timestamp\<close>. With one message
  sent at 5.000 s and \<open>before_timestamp\<close> at 5.0009 s, the message is strictly before
  the bound, yet the store sees both at millisecond 5000: nothing is returned and the
  total is 0.
\<close>

theorem before_timestamp_total_counterexample:
  "get_messages_before_timestamp 1 5000900 1 20 boundary_store =
     (Inr \<lparr>pg_total = 0, pg_page = 1, pg_limit = 20, pg_data = []\<rparr>, boundary_store)
   \<and> rows_before 1 5000900 (db boundary_store) = 1"
proof -
  have f: "faults boundary_store = []" by (simp add: boundary_store_def)
  have pos: "(0::int) < 1 * 20" by simp
  have p: "messages_partition 1 (db boundary_store) =
             [\<lparr>m_conversation_id = 1, m_message_timestamp = 5000000, m_message_id = 1,
                m_sender_id = 5, m_receiver_id = 9, m_content = ''hi''\<rparr>]"
    by (simp add: messages_partition_def boundary_store_def)
  have call: "get_messages_before_timestamp 1 5000900 1 20 boundary_store =
     (Inr \<lparr>pg_total = 0, pg_page = 1, pg_limit = 20, pg_data = []\<rparr>, boundary_store)"
    unfolding get_messages_before_timestamp_eq [OF f pos] p
    by (simp add: stored_before_def milliseconds_def py_slice_def slice_index_def)
  have n: "rows_before 1 5000900 (db boundary_store) = 1"
    by (simp add: rows_before_def boundary_store_def)
  from call n show ?thesis by simp
qed

section \<open>Calling twice for the same pair\<close>

text \<open>
  Claim C5. From any state of the tables, when the session raises nothing, two calls of
  \<^verbatim>\<open>create_or_get_conversation\<close> in sequence with the same pair both return a
  conversation, with the same id, and the second call leaves the store as the first
  left it: it creates nothing. After the first call the conversation is there to be
  found: the scan of the smaller user's partition stops at a summary row of that id, a
  participants row is stored under the id and holds the pair, the second call returns
  what \<^verbatim>\<open>get_conversation\<close> returns for the id, and both results carry the pair of that
  row.
\<close>

theorem create_or_get_conversation_idempotent:
  assumes "faults s = []"
  shows "\<exists>c1 c2 s1 row p ps.
            create_or_get_conversation a b now1 created1 s = (Inr (Some c1), s1)
          \<and> create_or_get_conversation a b now2 created2 s1 = (Inr (Some c2), s1)
          \<and> c_id c2 = c_id c1
          \<and> List.find (matches (db s1) (min a b) (max a b))
                (summaries_partition (min a b) (db s1)) = Some row
          \<and> s_conversation_id row = c_id c1
          \<and> get_conversation (c_id c1) s1 = (Inr (Some c2), s1)
          \<and> participants_partition (c_id c1) (db s1) = p # ps
          \<and> ((p_user1_id p = min a b \<and> p_user2_id p = max a b)
               \<or> (p_user1_id p = max a b \<and> p_user2_id p = min a b))
          \<and> c_user1_id c1 = p_user1_id p \<and> c_user2_id c1 = p_user2_id p
          \<and> c_user1_id c2 = p_user1_id p \<and> c_user2_id c2 = p_user2_id p"
  by (rule create_or_get_conversation_again [OF assms])

theorem create_or_get_conversation_idempotent_witness:
  "faults demo_store = []
   \<and> (\<exists>c1 c2 s1.
          create_or_get_conversation 9 7 200000000 200000001 demo_store = (Inr (Some c1), s1)
        \<and> create_or_get_conversation 9 7 300000000 300000001 s1 = (Inr (Some c2), s1)
        \<and> c_id c2 = c_id c1 \<and> c_id c1 = 200
        \<and> c_user1_id c2 = 7 \<and> c_user2_id c2 = 9
        \<and> participants_partition 200 (db s1) =
             [\<lparr>p_conversation_id = 200, p_user1_id = 7, p_user2_id = 9,
               p_created_at = 200000001\<rparr>])
   \<and> (\<exists>c1 c2.
          create_or_get_conversation 5 9 200000000 200000001 demo_store
            = (Inr (Some c1), demo_store)
        \<and> create_or_get_conversation 5 9 300000000 300000001 demo_store
            = (Inr (Some c2), demo_store)
        \<and> c_id c2 = c_id c1 \<and> c_id c1 = 100)"
proof -
  have w: "whole_seconds 200000000 = 200" by (simp add: whole_seconds_def)
  have none: "List.find (matches (db demo_store) (min 9 7) (max 9 7))
          (summaries_partition (min 9 7) (db demo_store)) = None"
    using demo_no_match_7_9 by (simp add: find_None_iff)
  note made = create_or_get_conversation_makes [OF demo_faults none, of 200000000 200000001]
  from create_or_get_conversation_idempotent [OF demo_faults,
      of 9 7 200000000 200000001 300000000 300000001]
  obtain c1 c2 s1 row p ps where r:
    "create_or_get_conversation 9 7 200000000 200000001 demo_store = (Inr (Some c1), s1)"
    "create_or_get_conversation 9 7 300000000 300000001 s1 = (Inr (Some c2), s1)"
    "c_id c2 = c_id c1"
    "participants_partition (c_id c1) (db s1) = p # ps"
    "c_user1_id c2 = p_user1_id p" "c_user2_id c2 = p_user2_id p"
    by blast
  from made r(1) have c1: "c_id c1 = 200"
    and s1: "s1 = demo_store\<lparr>db := written (create_conversation_writes 9 7 200000000 200000001)
                                       3 (db demo_store)\<rparr>"
    by (auto simp: w)
  have part: "participants_partition 200 (db s1) =
             [\<lparr>p_conversation_id = 200, p_user1_id = 7, p_user2_id = 9,
               p_created_at = 200000001\<rparr>]"
    using created_is_found(2) [OF none, of 200000000 200000001]
    by (simp add: s1 w new_participants_row_def)
  with r(4) c1 have p: "p_user1_id p = 7" "p_user2_id p = 9" by auto
  have first: "\<exists>c1 c2 s1.
          create_or_get_conversation 9 7 200000000 200000001 demo_store = (Inr (Some c1), s1)
        \<and> create_or_get_conversation 9 7 300000000 300000001 s1 = (Inr (Some c2), s1)
        \<and> c_id c2 = c_id c1 \<and> c_id c1 = 200
        \<and> c_user1_id c2 = 7 \<and> c_user2_id c2 = 9
        \<and> participants_partition 200 (db s1) =
             [\<lparr>p_conversation_id = 200, p_user1_id = 7, p_user2_id = 9,
               p_created_at = 200000001\<rparr>]"
    apply (rule exI [of _ c1])
    apply (rule exI [of _ c2])
    apply (rule exI [of _ s1])
    using r(1,2,3,5,6) c1 p part by simp
  have found: "List.find (matches (db demo_store) (min 5 9) (max 5 9))
          (summaries_partition (min 5 9) (db demo_store)) =
        Some \<lparr>s_user_id = 5, s_last_message_timestamp = 20, s_conversation_id = 100,
              s_other_user_id = 9, s_last_message_content = Some ''re''\<rparr>"
    by (simp add: demo_summaries_5 matches_def demo_participants)
  from create_or_get_conversation_idempotent [OF demo_faults,
      of 5 9 200000000 200000001 300000000 300000001]
  obtain d1 d2 t1 row' where d:
    "create_or_get_conversation 5 9 200000000 200000001 demo_store = (Inr (Some d1), t1)"
    "create_or_get_conversation 5 9 300000000 300000001 t1 = (Inr (Some d2), t1)"
    "c_id d2 = c_id d1"
    by blast
  from create_or_get_conversation_returns_found [OF demo_faults found, of 200000000 200000001]
    d(1)
  have t1: "t1 = demo_store" and d1: "c_id d1 = 100" by auto
  have second: "\<exists>c1 c2.
          create_or_get_conversation 5 9 200000000 200000001 demo_store
            = (Inr (Some c1), demo_store)
        \<and> create_or_get_conversation 5 9 300000000 300000001 demo_store
            = (Inr (Some c2), demo_store)
        \<and> c_id c2 = c_id c1 \<and> c_id c1 = 100"
    apply (rule exI [of _ d1])
    apply (rule exI [of _ d2])
    using d d1 unfolding t1 by simp
  from demo_faults first second show ?thesis by blast
qed

section \<open>Listing the conversations of a user\<close>

lemma resolved_Nil: "resolved t [] = []"
  by (simp add: resolved_def List.map_filter_simps)

lemma resolved_Cons:
  "resolved t (row # rows) =
     (case resolve_row t row of None \<Rightarrow> resolved t rows | Some c \<Rightarrow> c # resolved t rows)"
  by (simp add: resolved_def List.map_filter_simps split: option.splits)

lemma resolve_conversations_eq:
  "faults s = [] \<Longrightarrow>
   resolve_conversations rows conversations s = (Inr (conversations @ resolved (db s) rows), s)"
proof (induction rows arbitrary: conversations)
  case Nil
  then show ?case by (simp add: resolved_Nil)
next
  case (Cons row rows)
  show ?case
  proof (cases "participants_partition (s_conversation_id row) (db s)")
    case Nil
    then show ?thesis
      using Cons by (simp add: execute_select_participants resolved_Cons resolve_row_def)
  next
    case (Cons p ps)
    then show ?thesis
      using Cons.IH Cons.prems
      by (simp add: execute_select_participants resolved_Cons resolve_row_def)
  qed
qed

lemma resolve_row_Some_iff: "resolve_row t row \<noteq> None \<longleftrightarrow> has_participants t row"
proof -
  have "has_participants t row \<longleftrightarrow> participants_partition (s_conversation_id row) t \<noteq> []"
    unfolding has_participants_def participants_partition_Nil by blast
  then show ?thesis by (simp add: resolve_row_def split: list.splits)
qed

lemma resolved_as_filter:
  "resolved t rows = map (\<lambda>row. the (resolve_row t row)) (filter (has_participants t) rows)"
proof -
  have "(\<lambda>row. resolve_row t row \<noteq> None) = has_participants t"
    by (rule ext) (rule resolve_row_Some_iff)
  then show ?thesis
    by (simp add: resolved_def List.map_filter_def comp_def)
qed

lemma c_id_resolve_row:
  "has_participants t row \<Longrightarrow> c_id (the (resolve_row t row)) = s_conversation_id row"
  using resolve_row_Some_iff [of t row]
  by (auto simp: resolve_row_def split: list.splits)

lemma map_c_id_resolved:
  "map c_id (resolved t rows) = map s_conversation_id (filter (has_participants t) rows)"
  by (simp add: resolved_as_filter c_id_resolve_row)

lemma length_resolved:
  "length (resolved t rows) = length (filter (has_participants t) rows)"
  by (simp add: resolved_as_filter)

lemma get_user_conversations_eq:
  assumes "faults s = []" "0 < page * limit"
  shows "get_user_conversations uid page limit s =
     (Inr \<lparr>pg_total = int (length (resolved (db s)
                                   (take (nat (page * limit)) (summaries_partition uid (db s))))),
           pg_page = page, pg_limit = limit,
           pg_data = py_slice (resolved (db s)
                                 (take (nat (page * limit)) (summaries_partition uid (db s))))
                       ((page - 1) * limit) ((page - 1) * limit + limit)\<rparr>, s)"
  using assms
  by (simp add: get_user_conversations_def Let_def execute_select_conversations_by_user
      resolve_conversations_eq)

lemma get_user_conversations_rejected:
  assumes "faults s = []" "page * limit \<le> 0"
  shows "\<exists>e. get_user_conversations uid page limit s = (Inl e, s)"
  using assms
  by (simp add: get_user_conversations_def Let_def execute_def run_def
      select_conversations_by_user_def limited_def limit_rows_def)

text \<open>
  Claim C6. When the session raises nothing and \<open>page * limit\<close> is positive,
  \<^verbatim>\<open>get_user_conversations\<close> fetches the first \<open>page * limit\<close> summary rows of the
  user's partition; a fetched row whose participants lookup returns no row resolves to
  nothing; the total is the number of fetched rows that resolve, hence at most
  \<open>page * limit\<close>; the data are the page window of the resolved list, which keeps the
  order and the conversation ids of the rows that resolve. When \<open>page * limit\<close> is
  not positive the store rejects the query and the error reaches the caller.
\<close>

theorem get_user_conversations_resolved:
  assumes "faults s = []"
  shows "(page * limit \<le> 0 \<longrightarrow> (\<exists>e. get_user_conversations uid page limit s = (Inl e, s)))
       \<and> (0 < page * limit \<longrightarrow>
           (\<exists>r fetched.
                get_user_conversations uid page limit s = (Inr r, s)
              \<and> fetched = take (nat (page * limit)) (summaries_partition uid (db s))
              \<and> pg_total r = int (length (filter (has_participants (db s)) fetched))
              \<and> pg_total r \<le> page * limit
              \<and> pg_data r = page_window (resolved (db s) fetched) page limit
              \<and> map c_id (resolved (db s) fetched)
                   = map s_conversation_id (filter (has_participants (db s)) fetched)
              \<and> (\<forall>row \<in> set fetched. \<not> has_participants (db s) row \<longrightarrow>
                    resolve_row (db s) row = None)))"
proof (intro conjI impI)
  assume "page * limit \<le> 0"
  then show "\<exists>e. get_user_conversations uid page limit s = (Inl e, s)"
    by (rule get_user_conversations_rejected [OF assms])
next
  assume pos: "0 < page * limit"
  let ?F = "take (nat (page * limit)) (summaries_partition uid (db s))"
  let ?R = "resolved (db s) ?F"
  let ?r = "\<lparr>pg_total = int (length ?R), pg_page = page, pg_limit = limit,
             pg_data = py_slice ?R ((page - 1) * limit) ((page - 1) * limit + limit)\<rparr>"
  have eq: "get_user_conversations uid page limit s = (Inr ?r, s)"
    by (rule get_user_conversations_eq [OF assms pos])
  have win: "py_slice ?R ((page - 1) * limit) ((page - 1) * limit + limit)
               = page_window ?R page limit"
    using pos window_start_nonneg [OF pos] by (intro py_slice_window) simp_all
  have len: "length ?R = length (filter (has_participants (db s)) ?F)"
    by (rule length_resolved)
  have "length (filter (has_participants (db s)) ?F) \<le> length ?F" by (rule length_filter_le)
  also have "\<dots> \<le> nat (page * limit)" by simp
  finally have cap: "int (length (filter (has_participants (db s)) ?F)) \<le> page * limit"
    using pos by linarith
  have drop: "\<forall>row \<in> set ?F. \<not> has_participants (db s) row \<longrightarrow> resolve_row (db s) row = None"
    using resolve_row_Some_iff [of "db s"] by blast
  show "\<exists>r fetched.
                get_user_conversations uid page limit s = (Inr r, s)
              \<and> fetched = take (nat (page * limit)) (summaries_partition uid (db s))
              \<and> pg_total r = int (length (filter (has_participants (db s)) fetched))
              \<and> pg_total r \<le> page * limit
              \<and> pg_data r = page_window (resolved (db s) fetched) page limit
              \<and> map c_id (resolved (db s) fetched)
                   = map s_conversation_id (filter (has_participants (db s)) fetched)
              \<and> (\<forall>row \<in> set fetched. \<not> has_participants (db s) row \<longrightarrow>
                    resolve_row (db s) row = None)"
    apply (rule exI [of _ ?r])
    apply (rule exI [of _ ?F])
    apply (intro conjI)
    subgoal by (rule eq)
    subgoal by (rule refl)
    subgoal using len by simp
    subgoal using len cap by simp
    subgoal using win by simp
    subgoal by (rule map_c_id_resolved)
    subgoal by (rule drop)
    done
qed

theorem get_user_conversations_resolved_witness:
  "faults demo_store = [] \<and> (0::int) < 1 * 20
   \<and> (\<exists>r. get_user_conversations 5 1 20 demo_store = (Inr r, demo_store)
          \<and> pg_total r = 4 \<and> map c_id (pg_data r) = [100, 100, 101, 100])
   \<and> (\<exists>e. get_user_conversations 5 0 20 demo_store = (Inl e, demo_store))"
proof -
  have f: "faults demo_store = []" by (simp add: demo_store_def)
  have pos: "(0::int) < 1 * 20" by simp
  from get_user_conversations_resolved [OF f, of 1 20 5] pos
  obtain r fetched where r:
      "get_user_conversations 5 1 20 demo_store = (Inr r, demo_store)"
      "fetched = take (nat (1 * 20)) (summaries_partition 5 (db demo_store))"
      "pg_total r = int (length (filter (has_participants (db demo_store)) fetched))"
      "pg_data r = page_window (resolved (db demo_store) fetched) 1 20"
    by blast
  have res: "map c_id (resolved (db demo_store) fetched) = [100, 100, 101, 100]"
    unfolding r(2) demo_summaries_5
    by (simp add: resolved_def List.map_filter_simps resolve_row_def
        demo_participants demo_participants_77)
  have len: "length (resolved (db demo_store) fetched) = 4"
    using arg_cong [OF res, of length] by simp
  have tot: "pg_total r = 4"
    unfolding r(3) r(2) demo_summaries_5 by (simp add: demo_has_participants)
  have "pg_data r = resolved (db demo_store) fetched"
    unfolding r(4) page_window_def using len by (simp add: map_nth [of "resolved (db demo_store) fetched", unfolded len])
  with res have dat: "map c_id (pg_data r) = [100, 100, 101, 100]" by simp
  have c: "\<exists>e. get_user_conversations 5 0 20 demo_store = (Inl e, demo_store)"
    using get_user_conversations_resolved [OF f, of 0 20 5] by simp
  from f r(1) tot dat c show ?thesis by simp
qed

section \<open>Failures in the middle of the writes\<close>

text \<open>
  Claim C7. Let the session raise \<open>e\<close> at one of the three writes, the one with index
  \<open>k < 3\<close>, every query before it having succeeded. Then \<^verbatim>\<open>create_message\<close> returns
  the error \<open>e\<close> itself, and the tables are those left by its first \<open>k\<close> writes. The
  same holds for \<^verbatim>\<open>create_or_get_conversation\<close> when no row of the smaller user's
  partition matches the pair, its writes coming after one query for the partition and
  one lookup per row. Nothing is retried and nothing is undone.
\<close>

theorem failures_propagate_without_undo:
  assumes "k < 3"
  shows "(faults s = replicate k None @ Some e # fs \<longrightarrow>
            create_message sender_id receiver_id content cid mid ts s =
              (Inl e, s\<lparr>db := written (create_message_writes sender_id receiver_id content
                                           cid mid ts) k (db s),
                        faults := fs\<rparr>))
       \<and> ((\<forall>row \<in> set (summaries_partition (min a b) (db s)).
               \<not> matches (db s) (min a b) (max a b) row)
            \<and> faults s = replicate (Suc (length (summaries_partition (min a b) (db s))) + k) None
                           @ Some e # fs \<longrightarrow>
            create_or_get_conversation a b now created_at s =
              (Inl e, s\<lparr>db := written (create_conversation_writes a b now created_at) k (db s),
                        faults := fs\<rparr>))"
  using create_message_raises [OF _ assms] create_or_get_conversation_raises [OF _ _ assms]
  by blast

theorem failures_propagate_without_undo_witness:
  "(1::nat) < 3
   \<and> create_message 5 9 ''new'' 100 44 30 (flaky_store 1) =
       (Inl (QueryFailure ''timeout''),
        \<lparr>db = put_message (new_message_row 5 9 ''new'' 100 44 30) demo_tables, faults = []\<rparr>)
   \<and> create_or_get_conversation 9 7 200000000 200000001 (flaky_store 3) =
       (Inl (QueryFailure ''timeout''),
        \<lparr>db = put_participants (new_participants_row 9 7 200000000 200000001) demo_tables,
         faults = []\<rparr>)"
proof -
  have k: "(1::nat) < 3" by simp
  have f1: "faults (flaky_store 1) = replicate 1 None @ Some (QueryFailure ''timeout'') # []"
    by (simp add: flaky_store_def)
  have d: "db (flaky_store n) = demo_tables" for n by (simp add: flaky_store_def)
  have n: "length (summaries_partition (min 9 7) (db (flaky_store 3))) = 1"
    by (simp add: d demo_summaries_7)
  have f3: "faults (flaky_store 3) =
      replicate (Suc (length (summaries_partition (min 9 7) (db (flaky_store 3)))) + 1) None
        @ Some (QueryFailure ''timeout'') # []"
    unfolding n by (simp add: flaky_store_def numeral_3_eq_3)
  have nomatch: "\<forall>row \<in> set (summaries_partition (min 9 7) (db (flaky_store 3))).
               \<not> matches (db (flaky_store 3)) (min 9 7) (max 9 7) row"
    by (simp add: d demo_summaries_7 matches_def participants_partition_def demo_tables_def)
  have a: "create_message 5 9 ''new'' 100 44 30 (flaky_store 1) =
       (Inl (QueryFailure ''timeout''),
        \<lparr>db = put_message (new_message_row 5 9 ''new'' 100 44 30) demo_tables, faults = []\<rparr>)"
    using failures_propagate_without_undo [OF k, of "flaky_store 1" "QueryFailure ''timeout''" "[]"
        5 9 "''new''" 100 44 30] f1
    by (simp add: written_def create_message_writes_def flaky_store_def)
  have b: "create_or_get_conversation 9 7 200000000 200000001 (flaky_store 3) =
       (Inl (QueryFailure ''timeout''),
        \<lparr>db = put_participants (new_participants_row 9 7 200000000 200000001) demo_tables,
         faults = []\<rparr>)"
    using failures_propagate_without_undo [OF k, of "flaky_store 3" "QueryFailure ''timeout''" "[]"
        _ _ _ _ _ _ 9 7 200000000 200000001] f3 nomatch
    by (simp add: written_def create_conversation_writes_def flaky_store_def)
  from k a b show ?thesis by blast
qed

section \<open>Reading one conversation\<close>

text \<open>
  Claim C8. When the session raises nothing: if no \<^verbatim>\<open>conversation_participants\<close> row has
  the id, \<^verbatim>\<open>get_conversation\<close> returns \<^verbatim>\<open>None\<close> and no error. If the lookup returns
  a row, the result carries the id and the pair of that row; without messages in the
  conversation its \<^verbatim>\<open>last_message_at\<close> is the row's \<^verbatim>\<open>created_at\<close> and its content is
  null; with messages, both come from a message of the conversation that is first in
  the clustering order (newest timestamp, smallest id among equals).
\<close>

theorem get_conversation_result:
  assumes "faults s = []"
  shows "((\<forall>p \<in> set (conversation_participants (db s)). p_conversation_id p \<noteq> cid) \<longrightarrow>
            get_conversation cid s = (Inr None, s))
       \<and> (\<forall>p ps. participants_partition cid (db s) = p # ps \<longrightarrow>
            (\<exists>c. get_conversation cid s = (Inr (Some c), s)
                \<and> c_id c = cid \<and> c_user1_id c = p_user1_id p \<and> c_user2_id c = p_user2_id p
                \<and> ((\<forall>m \<in> set (messages_by_conversation (db s)). m_conversation_id m \<noteq> cid) \<longrightarrow>
                      c_last_message_at c = p_created_at p \<and> c_last_message_content c = None)
                \<and> ((\<exists>m \<in> set (messages_by_conversation (db s)). m_conversation_id m = cid) \<longrightarrow>
                      (\<exists>m \<in> set (messages_by_conversation (db s)).
                          m_conversation_id m = cid
                        \<and> (\<forall>m' \<in> set (messages_by_conversation (db s)).
                              m_conversation_id m' = cid \<longrightarrow> newest_first m m')
                        \<and> c_last_message_at c = m_message_timestamp m
                        \<and> c_last_message_content c = Some (m_content m)))))"
proof -
  have absent: "(\<forall>p \<in> set (conversation_participants (db s)). p_conversation_id p \<noteq> cid) \<longrightarrow>
            get_conversation cid s = (Inr None, s)"
    using assms by (simp add: get_conversation_absent participants_partition_Nil)
  have present: "\<exists>c. get_conversation cid s = (Inr (Some c), s)
                \<and> c_id c = cid \<and> c_user1_id c = p_user1_id p \<and> c_user2_id c = p_user2_id p
                \<and> ((\<forall>m \<in> set (messages_by_conversation (db s)). m_conversation_id m \<noteq> cid) \<longrightarrow>
                      c_last_message_at c = p_created_at p \<and> c_last_message_content c = None)
                \<and> ((\<exists>m \<in> set (messages_by_conversation (db s)). m_conversation_id m = cid) \<longrightarrow>
                      (\<exists>m \<in> set (messages_by_conversation (db s)).
                          m_conversation_id m = cid
                        \<and> (\<forall>m' \<in> set (messages_by_conversation (db s)).
                              m_conversation_id m' = cid \<longrightarrow> newest_first m m')
                        \<and> c_last_message_at c = m_message_timestamp m
                        \<and> c_last_message_content c = Some (m_content m)))"
    if row: "participants_partition cid (db s) = p # ps" for p ps
  proof (cases "messages_partition cid (db s)")
    case Nil
    have none: "\<not> (\<exists>m \<in> set (messages_by_conversation (db s)). m_conversation_id m = cid)"
      using Nil by (simp add: messages_partition_Nil)
    let ?c = "\<lparr>c_id = cid, c_user1_id = p_user1_id p, c_user2_id = p_user2_id p,
                 c_last_message_at = p_created_at p, c_last_message_content = None\<rparr>"
    have eq: "get_conversation cid s = (Inr (Some ?c), s)"
      by (rule get_conversation_no_messages [OF assms row Nil])
    show ?thesis
      by (rule exI [of _ ?c]) (use eq none in simp)
  next
    case (Cons m ms)
    have some: "\<not> (\<forall>m \<in> set (messages_by_conversation (db s)). m_conversation_id m \<noteq> cid)"
      using messages_partition_head(1,2) [OF Cons] by blast
    have newest: "\<exists>m0 \<in> set (messages_by_conversation (db s)).
                          m_conversation_id m0 = cid
                        \<and> (\<forall>m' \<in> set (messages_by_conversation (db s)).
                              m_conversation_id m' = cid \<longrightarrow> newest_first m0 m')
                        \<and> m_message_timestamp m = m_message_timestamp m0
                        \<and> Some (m_content m) = Some (m_content m0)"
      using messages_partition_head [OF Cons] unfolding newest_first_iff by blast
    let ?c = "\<lparr>c_id = cid, c_user1_id = p_user1_id p, c_user2_id = p_user2_id p,
                 c_last_message_at = m_message_timestamp m,
                 c_last_message_content = Some (m_content m)\<rparr>"
    have eq: "get_conversation cid s = (Inr (Some ?c), s)"
      by (rule get_conversation_last_message [OF assms row Cons])
    show ?thesis
      by (rule exI [of _ ?c]) (use eq some newest in simp)
  qed
  from absent present show ?thesis by blast
qed

theorem get_conversation_result_witness:
  "faults demo_store = []
   \<and> get_conversation 999 demo_store = (Inr None, demo_store)
   \<and> (\<exists>c. get_conversation 101 demo_store = (Inr (Some c), demo_store)
          \<and> c_last_message_at c = 6 \<and> c_last_message_content c = None)
   \<and> (\<exists>c. get_conversation 100 demo_store = (Inr (Some c), demo_store)
          \<and> c_last_message_at c = 20 \<and> c_last_message_content c = Some ''yo'')"
proof -
  have f: "faults demo_store = []" by (simp add: demo_store_def)
  have a: "get_conversation 999 demo_store = (Inr None, demo_store)"
    using get_conversation_result [OF f, of 999]
    by (simp add: demo_store_def demo_tables_def)
  have b: "\<exists>c. get_conversation 101 demo_store = (Inr (Some c), demo_store)
          \<and> c_last_message_at c = 6 \<and> c_last_message_content c = None"
    using get_conversation_result [OF f, of 101] demo_participants(2)
    by (auto simp: demo_store_def demo_tables_def)
  have c: "\<exists>c. get_conversation 100 demo_store = (Inr (Some c), demo_store)
          \<and> c_last_message_at c = 20 \<and> c_last_message_content c = Some ''yo''"
    using get_conversation_result [OF f, of 100] demo_participants(3)
    by (auto simp: demo_store_def demo_tables_def newest_first_def)
  from f a b c show ?thesis by blast
qed

section \<open>Creating a message\<close>

text \<open>
  Claim C9. When the session raises nothing in the next three queries,
  \<^verbatim>\<open>create_message\<close> executes exactly three queries, the three \<^verbatim>\<open>INSERT\<close>s: the
  message row goes to \<^verbatim>\<open>messages_by_conversation\<close> and replaces only a row with its own
  primary key; a row keyed by the sender with the receiver as other user and a row keyed
  by the receiver with the sender as other user, both with the message's timestamp and
  content, go to \<^verbatim>\<open>conversations_by_user\<close> and replace only rows with their primary
  keys; \<^verbatim>\<open>conversation_participants\<close> is untouched. The record returned holds the
  generated message id, the given conversation id, sender, receiver and content, and
  the timestamp. When sender and receiver differ the two summary rows are two rows of
  the table; when they are equal the two writes address one row.
\<close>

theorem create_message_three_writes:
  assumes "quiet 3 s"
  shows "\<exists>s'. create_message sender_id receiver_id content cid mid ts s =
           (Inr \<lparr>msg_id = Str mid, msg_conversation_id = cid, msg_sender_id = sender_id,
                 msg_receiver_id = receiver_id, msg_content = content,
                 msg_created_at = ts\<rparr>, s')
       \<and> faults s' = drop 3 (faults s)
       \<and> db s' = written (create_message_writes sender_id receiver_id content cid mid ts) 3 (db s)
       \<and> messages_by_conversation (db s') =
            new_message_row sender_id receiver_id content cid mid ts
            # filter (\<lambda>q. message_key q \<noteq> (cid, ts, mid)) (messages_by_conversation (db s))
       \<and> set (conversations_by_user (db s')) =
            {summary_for sender_id receiver_id cid ts (Some content),
             summary_for receiver_id sender_id cid ts (Some content)}
            \<union> {q \<in> set (conversations_by_user (db s)).
                 summary_key q \<noteq> (sender_id, ts, cid) \<and> summary_key q \<noteq> (receiver_id, ts, cid)}
       \<and> (sender_id \<noteq> receiver_id \<longrightarrow>
            conversations_by_user (db s') =
              summary_for receiver_id sender_id cid ts (Some content)
              # summary_for sender_id receiver_id cid ts (Some content)
              # filter (\<lambda>q. summary_key q \<noteq> (sender_id, ts, cid)
                            \<and> summary_key q \<noteq> (receiver_id, ts, cid))
                  (conversations_by_user (db s)))
       \<and> conversation_participants (db s') = conversation_participants (db s)"
proof -
  let ?m = "new_message_row sender_id receiver_id content cid mid ts"
  let ?r1 = "summary_for sender_id receiver_id cid ts (Some content)"
  let ?r2 = "summary_for receiver_id sender_id cid ts (Some content)"
  let ?t = "put_summary ?r2 (put_summary ?r1 (put_message ?m (db s)))"
  let ?s' = "(advance 3 s)\<lparr>db := ?t\<rparr>"
  have k: "message_key ?m = (cid, ts, mid)"
    by (simp add: message_key_def new_message_row_def)
  have w: "written (create_message_writes sender_id receiver_id content cid mid ts) 3 (db s) = ?t"
    by (simp add: written_def create_message_writes_def)
  show ?thesis
    apply (rule exI [of _ ?s'])
    apply (intro conjI impI)
    subgoal by (rule create_message_quiet [OF assms])
    subgoal by simp
    subgoal by (simp add: w)
    subgoal by (simp add: messages_put_message k)
    subgoal by (simp add: set_put_twice [OF summary_for_same_key] summary_key_for)
    subgoal by (simp add: put_twice_distinct summary_key_for)
    subgoal by simp
    done
qed

theorem create_message_three_writes_witness:
  "quiet 3 demo_store
   \<and> (\<exists>s'. create_message 5 9 ''new'' 100 44 30 demo_store =
           (Inr \<lparr>msg_id = Str 44, msg_conversation_id = 100, msg_sender_id = 5,
                 msg_receiver_id = 9, msg_content = ''new'', msg_created_at = 30\<rparr>, s')
         \<and> length (messages_by_conversation (db s')) = 4
         \<and> length (conversations_by_user (db s')) = 11
         \<and> length (conversation_participants (db s')) = 2)"
proof -
  have q: "quiet 3 demo_store" by (simp add: quiet_def demo_store_def)
  have ne: "(5::int) \<noteq> 9" by simp
  from create_message_three_writes [OF q, of 5 9 "''new''" 100 44 30] ne
  obtain s' where s':
    "create_message 5 9 ''new'' 100 44 30 demo_store =
           (Inr \<lparr>msg_id = Str 44, msg_conversation_id = 100, msg_sender_id = 5,
                 msg_receiver_id = 9, msg_content = ''new'', msg_created_at = 30\<rparr>, s')"
    "messages_by_conversation (db s') =
            new_message_row 5 9 ''new'' 100 44 30
            # filter (\<lambda>q. message_key q \<noteq> (100, 30, 44)) (messages_by_conversation (db demo_store))"
    "conversations_by_user (db s') =
              summary_for 9 5 100 30 (Some ''new'')
              # summary_for 5 9 100 30 (Some ''new'')
              # filter (\<lambda>q. summary_key q \<noteq> (5, 30, 100)
                            \<and> summary_key q \<noteq> (9, 30, 100))
                  (conversations_by_user (db demo_store))"
    "conversation_participants (db s') = conversation_participants (db demo_store)"
    by blast
  have a: "length (messages_by_conversation (db s')) = 4"
    unfolding s'(2) by (simp add: demo_store_def demo_tables_def message_key_def)
  have b: "length (conversations_by_user (db s')) = 11"
    unfolding s'(3) by (simp add: demo_store_def demo_tables_def summary_key_def)
  have c: "length (conversation_participants (db s')) = 2"
    unfolding s'(4) by (simp add: demo_store_def demo_tables_def)
  from q s'(1) a b c show ?thesis by blast
qed

section \<open>A pair of equal user ids\<close>

text \<open>
  Claim C10. \<^verbatim>\<open>create_or_get_conversation(a, a)\<close> is accepted. When the session raises
  nothing and no participants row holds the pair \<open>(a, a)\<close>, the call creates and returns
  a conversation with \<open>user1_id = user2_id = a\<close>, and the participants row stored
  under its id has \<open>user1_id = user2_id = a\<close>: \<open>user1_id \<le> user2_id\<close> holds and
  \<open>user1_id < user2_id\<close> does not.
\<close>

theorem create_or_get_conversation_self:
  assumes "faults s = []"
    and "\<forall>p \<in> set (conversation_participants (db s)). \<not> (p_user1_id p = a \<and> p_user2_id p = a)"
  shows "\<exists>s1.
            create_or_get_conversation a a now created_at s =
              (Inr (Some \<lparr>c_id = whole_seconds now, c_user1_id = a, c_user2_id = a,
                          c_last_message_at = created_at, c_last_message_content = None\<rparr>), s1)
          \<and> participants_partition (whole_seconds now) (db s1) =
              [\<lparr>p_conversation_id = whole_seconds now, p_user1_id = a, p_user2_id = a,
                p_created_at = created_at\<rparr>]
          \<and> list_all (\<lambda>p. p_user1_id p \<le> p_user2_id p \<and> \<not> p_user1_id p < p_user2_id p)
               (participants_partition (whole_seconds now) (db s1))"
proof -
  have "\<not> matches (db s) (min a a) (max a a) row" for row
    using assms(2) by (intro no_pair_no_match) simp
  then have none: "List.find (matches (db s) (min a a) (max a a))
                     (summaries_partition (min a a) (db s)) = None"
    by (simp add: find_None_iff)
  let ?s1 = "s\<lparr>db := written (create_conversation_writes a a now created_at) 3 (db s)\<rparr>"
  have call: "create_or_get_conversation a a now created_at s =
              (Inr (Some \<lparr>c_id = whole_seconds now, c_user1_id = a, c_user2_id = a,
                          c_last_message_at = created_at, c_last_message_content = None\<rparr>), ?s1)"
    using create_or_get_conversation_makes [OF assms(1) none, of now created_at] by simp
  have part: "participants_partition (whole_seconds now) (db ?s1)
                = [new_participants_row a a now created_at]"
    using created_is_found(2) [OF none, of now created_at] by simp
  show ?thesis
    apply (rule exI [of _ ?s1])
    using call part by (simp add: new_participants_row_def)
qed

theorem create_or_get_conversation_self_witness:
  "faults demo_store = []
   \<and> filter (\<lambda>p. p_user1_id p = 8 \<and> p_user2_id p = 8)
        (conversation_participants (db demo_store)) = []
   \<and> (\<exists>s1. create_or_get_conversation 8 8 200000000 200000001 demo_store =
              (Inr (Some \<lparr>c_id = 200, c_user1_id = 8, c_user2_id = 8,
                          c_last_message_at = 200000001, c_last_message_content = None\<rparr>), s1)
           \<and> participants_partition 200 (db s1) =
               [\<lparr>p_conversation_id = 200, p_user1_id = 8, p_user2_id = 8,
                 p_created_at = 200000001\<rparr>])"
proof -
  have w: "whole_seconds 200000000 = 200" by (simp add: whole_seconds_def)
  have n: "filter (\<lambda>p. p_user1_id p = 8 \<and> p_user2_id p = 8)
        (conversation_participants (db demo_store)) = []"
    using demo_no_pair_8 by (simp add: filter_empty_conv)
  from create_or_get_conversation_self [OF demo_faults demo_no_pair_8, of 200000000 200000001]
  obtain s1 where
    "create_or_get_conversation 8 8 200000000 200000001 demo_store =
              (Inr (Some \<lparr>c_id = 200, c_user1_id = 8, c_user2_id = 8,
                          c_last_message_at = 200000001, c_last_message_content = None\<rparr>), s1)"
    "participants_partition 200 (db s1) =
               [\<lparr>p_conversation_id = 200, p_user1_id = 8, p_user2_id = 8,
                 p_created_at = 200000001\<rparr>]"
    unfolding w by blast
  with demo_faults n show ?thesis by blast
qed

end
